(* ===== verification/Prelude.thy ===== *)
theory Prelude
  imports Main "HOL-Library.Multiset" "HOL-Library.Sublist" "HOL-Library.List_Lexorder" "HOL-Library.Char_ord"
begin

text \<open>
  Shared vocabulary of the development: the names of the model's basic types, the
  JavaScript string and array primitives the TypeScript sources call
  (\<open>String.prototype.toLowerCase\<close>, \<open>toUpperCase\<close>, \<open>includes\<close>, \<open>trim\<close>,
  \<open>split\<close> with its scan loop and a structural reference, \<open>Array.prototype.join\<close>,
  JS truthiness of strings),
  the toast notification that every handler emits as its user-visible side effect, and
  the error value of a failed remote call. Strings are \<open>char list\<close>; the primitives
  are modelled on their ASCII behaviour (a non-ASCII code point is several \<open>char\<close>s
  and is left unchanged by the lower-casing).
\<close>

named_theorems model_simps "characteristic equations of the model's operations"

type_synonym uid = nat
type_synonym nid = nat
type_synonym timestamp = nat

section \<open>JavaScript string primitives\<close>

definition js_lower_char :: "char \<Rightarrow> char" where
  "js_lower_char c =
     (let n = (of_char c :: nat) in if 65 \<le> n \<and> n \<le> 90 then char_of (n + 32) else c)"

definition js_toLowerCase :: "string \<Rightarrow> string" where
  "js_toLowerCase s = map js_lower_char s"

text \<open>\<open>s.includes(q)\<close>: the receiver first, as in the source. The recursion scans the
  start positions of \<open>s\<close> from the left, testing for \<open>q\<close> as a prefix at each.\<close>

fun js_includes :: "'a list \<Rightarrow> 'a list \<Rightarrow> bool" where
  "js_includes [] q = (q = [])"
| "js_includes (c # s) q = (prefix q (c # s) \<or> js_includes s q)"

text \<open>The white space that \<open>String.prototype.trim\<close> removes, restricted to one-byte
  characters: tab, line feed, vertical tab, form feed, carriage return and space.\<close>

definition js_is_space :: "char \<Rightarrow> bool" where
  "js_is_space c = ((of_char c :: nat) \<in> {9, 10, 11, 12, 13, 32})"

definition js_trim :: "string \<Rightarrow> string" where
  "js_trim s = rev (dropWhile js_is_space (rev (dropWhile js_is_space s)))"

text \<open>JS truthiness of a string: only the empty string is falsy.\<close>

abbreviation js_truthy :: "string \<Rightarrow> bool" where
  "js_truthy s \<equiv> s \<noteq> []"

text \<open>The strings on which the character model is exact: JavaScript strings are UTF-16,
  the model's are \<open>char\<close> lists, and upper- and lower-casing are modelled on ASCII; on
  ASCII text, one \<open>char\<close> is one UTF-16 unit and casing keeps the length.\<close>

definition js_ascii :: "string \<Rightarrow> bool" where
  "js_ascii s \<longleftrightarrow> list_all (\<lambda>c. of_char c < (128::nat)) s"

text \<open>\<open>s || d\<close> on a string: the fallback when \<open>s\<close> is falsy (empty).\<close>

definition js_or :: "string \<Rightarrow> string \<Rightarrow> string" where
  "js_or s d = (if js_truthy s then s else d)"

text \<open>\<open>Array.prototype.slice(a, b)\<close> for \<open>0 \<le> a \<le> b\<close>: the elements at
  indices \<open>a\<close> up to \<open>b\<close>, fewer when the array is shorter.\<close>

definition js_slice :: "nat \<Rightarrow> nat \<Rightarrow> 'a list \<Rightarrow> 'a list" where
  "js_slice a b xs = take (b - a) (drop a xs)"

definition js_upper_char :: "char \<Rightarrow> char" where
  "js_upper_char c =
     (let n = (of_char c :: nat) in if 97 \<le> n \<and> n \<le> 122 then char_of (n - 32) else c)"

definition js_toUpperCase :: "string \<Rightarrow> string" where
  "js_toUpperCase s = map js_upper_char s"

text \<open>\<open>s.split(d)\<close> for a one-character separator, as the ECMAScript algorithm runs
  it: \<open>p\<close> is the start of the current piece and \<open>q\<close> scans forward; at a separator
  the piece \<open>s[p..q)\<close> is emitted and both restart after it; at the end the last
  piece \<open>s[p..)\<close> is emitted. The loop counts \<open>q\<close> up to the length, so it is
  defined with \<^theory_text>\<open>function\<close> and the measure \<open>length s - q\<close>.\<close>

function (domintros) js_split_loop :: "char \<Rightarrow> string \<Rightarrow> nat \<Rightarrow> nat \<Rightarrow> string list" where
  "js_split_loop d s p q =
     (if q < length s then
        (if s ! q = d then take (q - p) (drop p s) # js_split_loop d s (Suc q) (Suc q)
         else js_split_loop d s p (Suc q))
      else [drop p s])"
  by pat_completeness auto
termination by (relation "measure (\<lambda>(d, s, p, q). length s - q)") auto

declare js_split_loop.simps [simp del]

definition js_split :: "string \<Rightarrow> char \<Rightarrow> string list" where
  "js_split s d = js_split_loop d s 0 0"

text \<open>The structural reference for \<open>split\<close>: one character at a time from the left.\<close>

fun split_on :: "char \<Rightarrow> string \<Rightarrow> string list" where
  "split_on d [] = [[]]"
| "split_on d (c # s) = (let r = split_on d s in if c = d then [] # r else (c # hd r) # tl r)"

text \<open>\<open>xs.join(sep)\<close>.\<close>

fun js_join :: "string \<Rightarrow> string list \<Rightarrow> string" where
  "js_join sep [] = []"
| "js_join sep [x] = x"
| "js_join sep (x # xs) = x @ sep @ js_join sep xs"

text \<open>\<open>Array.from(new Set(xs))\<close>: the distinct values in order of first occurrence.\<close>

definition js_set_values :: "'a list \<Rightarrow> 'a list" where
  "js_set_values xs = rev (remdups (rev xs))"

section \<open>Side effects shared by all components\<close>

text \<open>A toast is the notification raised by \<open>toast({title, description, variant})\<close>
  of \<open>use-toast\<close>; \<open>destructive\<close> is \<open>variant: "destructive"\<close>.\<close>

record toast =
  toast_title :: string
  toast_description :: string
  destructive :: bool

text \<open>A failed remote call: the \<open>error\<close> object of a Supabase response, of which the
  code reads only \<open>error.message\<close>.\<close>

datatype gw_error = Gw_error (message: string)

type_synonym 'a gw = "gw_error + 'a"

definition gw_call :: "gw_error option \<Rightarrow> 'a \<Rightarrow> 'a gw" where
  "gw_call fail x = (case fail of None \<Rightarrow> Inr x | Some e \<Rightarrow> Inl e)"

definition ok_toast :: "string \<Rightarrow> string \<Rightarrow> toast" where
  "ok_toast t d = \<lparr>toast_title = t, toast_description = d, destructive = False\<rparr>"

definition err_toast :: "string \<Rightarrow> gw_error \<Rightarrow> toast" where
  "err_toast t e = \<lparr>toast_title = t, toast_description = message e, destructive = True\<rparr>"

text \<open>A field of a \<open>Partial<T>\<close> object: absent (\<open>None\<close>) keeps the old value.\<close>

definition upd_opt :: "'a option \<Rightarrow> 'a \<Rightarrow> 'a" where
  "upd_opt p x = (case p of None \<Rightarrow> x | Some y \<Rightarrow> y)"

section \<open>Lemmas on the primitives\<close>

lemma js_lower_char_idem [simp]: "js_lower_char (js_lower_char c) = js_lower_char c"
  by (auto simp: js_lower_char_def Let_def)

lemma js_toLowerCase_idem [simp]: "js_toLowerCase (js_toLowerCase s) = js_toLowerCase s"
  by (simp add: js_toLowerCase_def comp_def)

lemma js_toLowerCase_simps [simp]:
  "js_toLowerCase [] = []"
  "js_toLowerCase (c # s) = js_lower_char c # js_toLowerCase s"
  "js_toLowerCase (s @ t) = js_toLowerCase s @ js_toLowerCase t"
  "length (js_toLowerCase s) = length s"
  by (simp_all add: js_toLowerCase_def)

lemma js_includes_sublist: "js_includes s q \<longleftrightarrow> sublist q s"
proof (induction s)
  case Nil
  then show ?case by simp
next
  case (Cons c s)
  then show ?case by (simp add: sublist_Cons_right)
qed

lemma js_includes_Nil_query [simp]: "js_includes s []"
  by (simp add: js_includes_sublist)

lemma js_includes_self [simp]: "js_includes s s"
  by (simp add: js_includes_sublist)

lemma js_includes_length: "js_includes s q \<Longrightarrow> length q \<le> length s"
  by (auto simp: js_includes_sublist dest: sublist_length_le)

lemma js_includes_lower:
  "js_includes s q \<Longrightarrow> js_includes (js_toLowerCase s) (js_toLowerCase q)"
  by (simp add: js_includes_sublist js_toLowerCase_def map_mono_sublist)

lemma all_dropWhile_iff: "(\<forall>x \<in> set (dropWhile P s). P x) \<longleftrightarrow> (\<forall>x \<in> set s. P x)"
  by (induction s) auto

lemma js_trim_Nil_iff: "js_trim s = [] \<longleftrightarrow> (\<forall>c \<in> set s. js_is_space c)"
  by (simp add: js_trim_def all_dropWhile_iff)

lemma set_js_set_values [simp]: "set (js_set_values xs) = set xs"
  by (simp add: js_set_values_def)

lemma distinct_js_set_values [simp]: "distinct (js_set_values xs)"
  by (simp add: js_set_values_def)

lemma js_toUpperCase_simps [simp]:
  "js_toUpperCase [] = []"
  "js_toUpperCase (c # s) = js_upper_char c # js_toUpperCase s"
  "js_toUpperCase (s @ t) = js_toUpperCase s @ js_toUpperCase t"
  "length (js_toUpperCase s) = length s"
  by (simp_all add: js_toUpperCase_def)

lemma split_on_ne [simp]: "split_on d s \<noteq> []"
  by (induction s) (auto simp: Let_def)

lemma length_split_on: "length (split_on d s) = Suc (count_list s d)"
  by (induction s) (auto simp: Let_def)

lemma split_on_no_sep: "w \<in> set (split_on d s) \<Longrightarrow> d \<notin> set w"
proof (induction s arbitrary: w)
  case Nil
  then show ?case by simp
next
  case (Cons c s)
  have "hd (split_on d s) \<in> set (split_on d s)" and "set (tl (split_on d s)) \<subseteq> set (split_on d s)"
    by (simp_all add: list.set_sel(2) [of "split_on d s"] subsetI)
  with Cons show ?case by (auto simp: Let_def split: if_splits)
qed

lemma js_join_hd_tl: "xs \<noteq> [] \<Longrightarrow> js_join sep ((ys @ hd xs) # tl xs) = ys @ js_join sep xs"
  by (cases xs; cases "tl xs") auto

lemma js_join_Nil_sep: "js_join [] xs = concat xs"
  by (induction "[] :: string" xs rule: js_join.induct) simp_all

lemma js_join_split_on: "js_join [d] (split_on d s) = s"
proof (induction s)
  case Nil
  then show ?case by simp
next
  case (Cons c s)
  show ?case
  proof (cases "c = d")
    case True
    with Cons show ?thesis by (cases "split_on d s") simp_all
  next
    case False
    with Cons js_join_hd_tl [of "split_on d s" "[d]" "[c]"] show ?thesis by (simp add: Let_def)
  qed
qed

text \<open>The scan loop computes the structural split: a loop invariant relating the
  current piece and the rest of the string, by computation induction.\<close>

lemma js_split_loop_eq:
  assumes "p \<le> q" "q \<le> length s" "d \<notin> set (take (q - p) (drop p s))"
  shows "js_split_loop d s p q =
           (let r = split_on d (drop q s) in (take (q - p) (drop p s) @ hd r) # tl r)"
  using assms
proof (induction d s p q rule: js_split_loop.induct)
  case (1 d s p q)
  show ?case
  proof (cases "q < length s")
    case False
    with "1.prems" show ?thesis by (simp add: js_split_loop.simps)
  next
    case True
    then have dq: "drop q s = s ! q # drop (Suc q) s" by (simp add: Cons_nth_drop_Suc)
    show ?thesis
    proof (cases "s ! q = d")
      case True
      with "1.IH"(1) [OF \<open>q < length s\<close> True] \<open>q < length s\<close> dq show ?thesis
        by (simp add: js_split_loop.simps [of d s p q] Let_def)
    next
      case False
      have tk: "take (Suc q - p) (drop p s) = take (q - p) (drop p s) @ [s ! q]"
        using "1.prems" \<open>q < length s\<close> by (simp add: take_Suc_conv_app_nth Suc_diff_le)
      have "d \<notin> set (take (Suc q - p) (drop p s))" using tk False "1.prems"(3) by auto
      with "1.IH"(2) [OF \<open>q < length s\<close> False] "1.prems" \<open>q < length s\<close> tk dq False show ?thesis
        by (simp add: js_split_loop.simps [of d s p q] Let_def)
    qed
  qed
qed

lemma upd_opt_simps [simp]: "upd_opt None x = x" "upd_opt (Some y) x = y"
  by (simp_all add: upd_opt_def)

lemma gw_call_simps [simp]: "gw_call None x = Inr x" "gw_call (Some e) x = Inl e"
  by (simp_all add: gw_call_def)

end
