(* ===== verification/Store.thy ===== *)
theory Store
  imports Prelude
begin

text \<open>
  The remote \<open>notes\<close> table and the queries the client sends to it. The row type is
  the \<open>Note\<close> interface of \<open>src/hooks/useNotes.ts\<close>; the queries are the Supabase
  call chains of \<open>useNotes.ts\<close> and \<open>PublicNotes.tsx\<close>. What the hosted store does
  with a query (row-level security, the id and timestamp it assigns, the ordering) is not
  code of this repository: it is modelled from the spec (section 3, section 6), as a table of rows
  kept in insertion order with a counter for fresh ids and a clock for timestamps.
  Row-level security is a parameter: a read \<open>policy\<close> decides which rows a session may
  see; writes are allowed to the owner only (spec section 3, "mutable by the owning user
  only"), and a write that matches no permitted row succeeds with no effect, as
  PostgREST does.
\<close>

section \<open>Rows\<close>

record Note =
  note_id :: nid
  user_id :: uid
  title :: string
  content :: string
  tags :: "string list"
  is_favorite :: bool
  is_public :: bool
  slug :: "string option"
  view_count :: nat
  created_at :: timestamp
  updated_at :: timestamp

text \<open>The \<open>Partial<Note>\<close> objects that the client sends to \<open>update\<close>: only the
  fields the editor ever writes.\<close>

record note_patch =
  p_title :: "string option"
  p_content :: "string option"
  p_tags :: "string list option"
  p_is_favorite :: "bool option"

definition apply_patch :: "note_patch \<Rightarrow> Note \<Rightarrow> Note" where
  "apply_patch p n =
     n\<lparr>title := upd_opt (p_title p) (title n),
       content := upd_opt (p_content p) (content n),
       tags := upd_opt (p_tags p) (tags n),
       is_favorite := upd_opt (p_is_favorite p) (is_favorite n)\<rparr>"

section \<open>The table\<close>

record store =
  rows :: "Note list"
  next_id :: nid
  clock :: timestamp

type_synonym policy = "uid option \<Rightarrow> Note \<Rightarrow> bool"

definition owns :: "uid option \<Rightarrow> Note \<Rightarrow> bool" where
  "owns sess n \<longleftrightarrow> sess = Some (user_id n)"

text \<open>Two read policies: the one the spec describes for the dashboard (a user sees their
  own notes) and the one the public-notes page needs (anyone sees public notes).\<close>

definition owner_only :: policy where
  "owner_only sess n \<longleftrightarrow> owns sess n"

definition owner_or_public :: policy where
  "owner_or_public sess n \<longleftrightarrow> owns sess n \<or> is_public n"

text \<open>\<open>.order(key, { ascending: false })\<close>: a stable sort on the negated key.\<close>

definition order_desc :: "(Note \<Rightarrow> timestamp) \<Rightarrow> Note list \<Rightarrow> Note list" where
  "order_desc key xs = sort_key (\<lambda>n. - int (key n)) xs"

text \<open>\<open>fetchNotes\<close>: \<open>from("notes").select("*").order("updated_at", desc)\<close>. There is
  no filter on the owner: the rows returned are those the read policy lets through.\<close>

definition select_notes :: "policy \<Rightarrow> uid option \<Rightarrow> store \<Rightarrow> Note list" where
  "select_notes rls sess st = order_desc updated_at (filter (rls sess) (rows st))"

text \<open>\<open>fetchPublicNotes\<close>: \<open>.eq("is_public", true).order("created_at", desc)\<close>.\<close>

definition select_public :: "policy \<Rightarrow> uid option \<Rightarrow> store \<Rightarrow> Note list" where
  "select_public rls sess st =
     order_desc created_at (filter (\<lambda>n. is_public n) (filter (rls sess) (rows st)))"

text \<open>\<open>createNote\<close>'s \<open>insert({user_id, title, content, tags}).select().single()\<close>:
  the store assigns the id and both timestamps and the column defaults of the other
  fields (not favourite, not public, no slug, no views).\<close>

definition new_note_row :: "nid \<Rightarrow> uid \<Rightarrow> timestamp \<Rightarrow> string \<Rightarrow> string \<Rightarrow> string list \<Rightarrow> Note" where
  "new_note_row i u t ti co tg =
     \<lparr>note_id = i, user_id = u, title = ti, content = co, tags = tg,
      is_favorite = False, is_public = False, slug = None, view_count = 0,
      created_at = t, updated_at = t\<rparr>"

definition store_insert :: "uid \<Rightarrow> string \<Rightarrow> string \<Rightarrow> string list \<Rightarrow> store \<Rightarrow> Note \<times> store" where
  "store_insert u ti co tg st =
     (let n = new_note_row (next_id st) u (clock st) ti co tg
      in (n, st\<lparr>rows := rows st @ [n], next_id := Suc (next_id st), clock := Suc (clock st)\<rparr>))"

text \<open>\<open>update(updates).eq("id", id)\<close>: the patch is applied to the row with that id if
  the session owns it, and the row's \<open>updated_at\<close> is stamped.\<close>

definition store_update :: "uid option \<Rightarrow> nid \<Rightarrow> note_patch \<Rightarrow> store \<Rightarrow> store" where
  "store_update sess i p st =
     st\<lparr>rows := map (\<lambda>n. if note_id n = i \<and> owns sess n
                          then (apply_patch p n)\<lparr>updated_at := clock st\<rparr> else n) (rows st),
        clock := Suc (clock st)\<rparr>"

text \<open>\<open>delete().eq("id", id)\<close>.\<close>

definition store_delete :: "uid option \<Rightarrow> nid \<Rightarrow> store \<Rightarrow> store" where
  "store_delete sess i st = st\<lparr>rows := filter (\<lambda>n. \<not> (note_id n = i \<and> owns sess n)) (rows st)\<rparr>"

text \<open>Well-formed table: ids are unique and below the id counter, and every row was
  created no later than its last update, which lies in the past of the clock.\<close>

definition store_wf :: "store \<Rightarrow> bool" where
  "store_wf st \<longleftrightarrow> distinct (map note_id (rows st)) \<and>
     (\<forall>n \<in> set (rows st). note_id n < next_id st \<and> created_at n \<le> updated_at n
                          \<and> updated_at n < clock st)"

definition store_empty :: store where
  "store_empty = \<lparr>rows = [], next_id = 0, clock = 0\<rparr>"

section \<open>Lemmas\<close>

lemma apply_patch_frame [simp]:
  "note_id (apply_patch p n) = note_id n" "user_id (apply_patch p n) = user_id n"
  "created_at (apply_patch p n) = created_at n" "updated_at (apply_patch p n) = updated_at n"
  "is_public (apply_patch p n) = is_public n"
  by (simp_all add: apply_patch_def)

lemma new_note_row_sel [simp]:
  "note_id (new_note_row i u t ti co tg) = i" "user_id (new_note_row i u t ti co tg) = u"
  "created_at (new_note_row i u t ti co tg) = t" "updated_at (new_note_row i u t ti co tg) = t"
  "is_public (new_note_row i u t ti co tg) = False"
  by (simp_all add: new_note_row_def)

lemma set_order_desc [simp]: "set (order_desc key xs) = set xs"
  by (simp add: order_desc_def)

lemma mset_order_desc [simp]: "mset (order_desc key xs) = mset xs"
  by (simp add: order_desc_def)

lemma sorted_order_desc: "sorted_wrt (\<lambda>a b. key b \<le> key a) (order_desc key xs)"
proof -
  have "sorted (map (\<lambda>n. - int (key n)) (sort_key (\<lambda>n. - int (key n)) xs))"
    by simp
  then show ?thesis by (simp add: order_desc_def sorted_map)
qed

lemma set_select_notes [simp]:
  "set (select_notes rls sess st) = {n \<in> set (rows st). rls sess n}"
  by (auto simp: select_notes_def)

lemma set_select_public [simp]:
  "set (select_public rls sess st) = {n \<in> set (rows st). rls sess n \<and> is_public n}"
  by (auto simp: select_public_def)

lemma store_insert_rows:
  "store_insert u ti co tg st = (n, st') \<Longrightarrow>
     rows st' = rows st @ [n] \<and> n = new_note_row (next_id st) u (clock st) ti co tg"
  by (auto simp: store_insert_def Let_def)

lemma rows_store_delete [simp]:
  "rows (store_delete sess i st) = filter (\<lambda>n. \<not> (note_id n = i \<and> owns sess n)) (rows st)"
  by (simp add: store_delete_def)

lemma map_note_id_store_update [simp]:
  "map note_id (rows (store_update sess i p st)) = map note_id (rows st)"
  by (simp add: store_update_def comp_def if_distrib cong: if_cong)

lemma map_user_id_store_update [simp]:
  "map user_id (rows (store_update sess i p st)) = map user_id (rows st)"
  by (simp add: store_update_def comp_def if_distrib cong: if_cong)

lemma store_wf_insert:
  assumes "store_wf st"
  shows "store_wf (snd (store_insert u ti co tg st))"
proof -
  have "next_id st \<notin> note_id ` set (rows st)"
    using assms by (auto simp: store_wf_def)
  with assms show ?thesis
    by (auto simp: store_wf_def store_insert_def Let_def less_Suc_eq)
qed

lemma store_wf_update:
  assumes "store_wf st"
  shows "store_wf (store_update sess i p st)"
proof -
  have "distinct (map note_id (rows (store_update sess i p st)))"
    using assms by (simp add: store_wf_def)
  moreover have "\<forall>n \<in> set (rows (store_update sess i p st)). note_id n < next_id st \<and>
                   created_at n \<le> updated_at n \<and> updated_at n < Suc (clock st)"
    using assms by (fastforce simp: store_wf_def store_update_def)
  ultimately show ?thesis by (simp add: store_wf_def store_update_def)
qed

lemma store_wf_delete:
  assumes "store_wf st"
  shows "store_wf (store_delete sess i st)"
  using assms by (auto simp: store_wf_def store_delete_def distinct_map_filter)

lemma store_update_ids_owners:
  "map note_id (rows (store_update sess i p st)) = map note_id (rows st) \<and>
   map user_id (rows (store_update sess i p st)) = map user_id (rows st)"
  by simp

end
