(* ===== verification/UseNotes.thy ===== *)
theory UseNotes
  imports Store
begin

text \<open>
  The notes synchronisation hook \<open>useNotes\<close> of \<open>src/hooks/useNotes.ts\<close>. Its React
  state (\<open>notes\<close>, \<open>isLoading\<close>) is a record; \<open>notes_gen\<close> counts the arrays that
  \<open>setNotes\<close> has stored, which is the object identity React compares (every fetch
  builds fresh row objects). Each async operation is split where it awaits: the query
  runs against the store and yields a response (\<open>fetchNotes_query\<close>), and the
  continuation consumes the response (\<open>fetchNotes_settle\<close>); the mutations, whose
  continuations only toast, are single functions from a store to the next store and the
  toasts. A failed call is the \<open>fail\<close> argument: \<open>Some e\<close> is the \<open>error\<close> the Supabase
  client returns, and the store is then unchanged.
\<close>

record hook_state =
  hook_notes :: "Note list"
  isLoading :: bool
  notes_gen :: nat

definition useNotes_init :: hook_state where
  "useNotes_init = \<lparr>hook_notes = [], isLoading = True, notes_gen = 0\<rparr>"

section \<open>fetchNotes\<close>

definition fetchNotes_query :: "policy \<Rightarrow> uid option \<Rightarrow> gw_error option \<Rightarrow> store \<Rightarrow> Note list gw" where
  "fetchNotes_query rls sess fail st = gw_call fail (select_notes rls sess st)"

text \<open>The continuation: \<open>setNotes(data || [])\<close> on success, a destructive toast on error,
  and \<open>setIsLoading(false)\<close> in the \<open>finally\<close> block either way.\<close>

definition fetchNotes_settle :: "Note list gw \<Rightarrow> hook_state \<Rightarrow> hook_state \<times> toast list" where
  "fetchNotes_settle r h =
     (case r of
        Inl e \<Rightarrow> (h\<lparr>isLoading := False\<rparr>, [err_toast ''Error loading notes'' e])
      | Inr data \<Rightarrow> (h\<lparr>hook_notes := data, isLoading := False, notes_gen := Suc (notes_gen h)\<rparr>, []))"

definition fetchNotes :: "policy \<Rightarrow> uid option \<Rightarrow> gw_error option \<Rightarrow> store \<Rightarrow> hook_state \<Rightarrow> hook_state \<times> toast list" where
  "fetchNotes rls sess fail st h = fetchNotes_settle (fetchNotes_query rls sess fail st) h"

section \<open>Mutations\<close>

text \<open>\<open>createNote\<close>: \<open>auth.getUser()\<close> gives no user \<open>\<rightarrow>\<close> \<open>throw new Error("Not
  authenticated")\<close>; otherwise the insert, whose error is thrown too; the \<open>catch\<close> toasts
  and returns \<open>null\<close>.\<close>

definition createNote :: "uid option \<Rightarrow> gw_error option \<Rightarrow> store \<Rightarrow> Note option \<times> store \<times> toast list" where
  "createNote sess fail st =
     (case sess of
        None \<Rightarrow> (None, st, [err_toast ''Error creating note'' (Gw_error ''Not authenticated'')])
      | Some u \<Rightarrow>
          (case fail of
             Some e \<Rightarrow> (None, st, [err_toast ''Error creating note'' e])
           | None \<Rightarrow>
               (let (n, st') = store_insert u ''Untitled Note'' [] [] st
                in (Some n, st', [ok_toast ''Note created'' ''Your new note is ready'']))))"

definition updateNote :: "uid option \<Rightarrow> nid \<Rightarrow> note_patch \<Rightarrow> gw_error option \<Rightarrow> store \<Rightarrow> store \<times> toast list" where
  "updateNote sess i p fail st =
     (case fail of
        Some e \<Rightarrow> (st, [err_toast ''Error updating note'' e])
      | None \<Rightarrow> (store_update sess i p st, []))"

definition deleteNote :: "uid option \<Rightarrow> nid \<Rightarrow> gw_error option \<Rightarrow> store \<Rightarrow> store \<times> toast list" where
  "deleteNote sess i fail st =
     (case fail of
        Some e \<Rightarrow> (st, [err_toast ''Error deleting note'' e])
      | None \<Rightarrow> (store_delete sess i st, [ok_toast ''Note deleted'' ''Your note has been removed'']))"

section \<open>The hook's interface\<close>

text \<open>What \<open>useNotes\<close> returns: the list and the loading flag (the \<open>hook_state\<close>)
  and four operations. An operation of the interface is a value of \<open>hook_op\<close>;
  \<open>useNotes_call\<close> runs one against the table and the hook's state, as a caller of
  the returned object does, giving the created row (for \<open>createNote\<close>), the new table,
  the new hook state and the toasts. \<open>refetch\<close> is \<open>fetchNotes\<close>.\<close>

datatype hook_op = Hook_create | Hook_update nid note_patch | Hook_delete nid | Hook_refetch

definition useNotes_call :: "policy \<Rightarrow> uid option \<Rightarrow> gw_error option \<Rightarrow> hook_op \<Rightarrow>
    store \<times> hook_state \<Rightarrow> Note option \<times> store \<times> hook_state \<times> toast list" where
  "useNotes_call rls sess fail op sh =
     (let (st, h) = sh in
      case op of
        Hook_create \<Rightarrow> (let (r, st', ts) = createNote sess fail st in (r, st', h, ts))
      | Hook_update i p \<Rightarrow> (let (st', ts) = updateNote sess i p fail st in (None, st', h, ts))
      | Hook_delete i \<Rightarrow> (let (st', ts) = deleteNote sess i fail st in (None, st', h, ts))
      | Hook_refetch \<Rightarrow> (let (h', ts) = fetchNotes rls sess fail st h in (None, st, h', ts)))"

section \<open>Characteristic equations\<close>

lemma fetchNotes_settle_simps [simp, model_simps]:
  "fetchNotes_settle (Inl e) h = (h\<lparr>isLoading := False\<rparr>, [err_toast ''Error loading notes'' e])"
  "fetchNotes_settle (Inr d) h =
     (h\<lparr>hook_notes := d, isLoading := False, notes_gen := Suc (notes_gen h)\<rparr>, [])"
  by (simp_all add: fetchNotes_settle_def)

lemma createNote_Some_iff:
  "createNote sess fail st = (Some n, st', ts) \<longleftrightarrow>
     (\<exists>u. sess = Some u \<and> fail = None \<and> store_insert u ''Untitled Note'' [] [] st = (n, st')
          \<and> ts = [ok_toast ''Note created'' ''Your new note is ready''])"
  by (auto simp: createNote_def split: option.splits prod.splits)

lemma updateNote_store [model_simps]:
  "fst (updateNote sess i p fail st) = (if fail = None then store_update sess i p st else st)"
  by (simp add: updateNote_def split: option.splits)

lemma deleteNote_store [model_simps]:
  "fst (deleteNote sess i fail st) = (if fail = None then store_delete sess i st else st)"
  by (simp add: deleteNote_def split: option.splits)

lemma fetchNotes_ok [simp]:
  "fetchNotes rls sess None st h = fetchNotes_settle (Inr (select_notes rls sess st)) h"
  by (simp add: fetchNotes_def fetchNotes_query_def)

lemma hook_notes_fetchNotes_ok:
  "hook_notes (fst (fetchNotes rls sess None st h)) = select_notes rls sess st"
  by simp

lemma store_wf_mutations:
  assumes "store_wf st"
  shows "store_wf (fst (snd (createNote sess fail st)))"
    and "store_wf (fst (updateNote sess i p fail st))"
    and "store_wf (fst (deleteNote sess i fail st))"
proof -
  show "store_wf (fst (snd (createNote sess fail st)))"
    using assms store_wf_insert [OF assms]
    by (simp add: createNote_def case_prod_beta split: option.splits)
  show "store_wf (fst (updateNote sess i p fail st))"
    using assms store_wf_update [OF assms] by (simp add: updateNote_store)
  show "store_wf (fst (deleteNote sess i fail st))"
    using assms store_wf_delete [OF assms] by (simp add: deleteNote_store)
qed

text \<open>The division of labour of the interface: the mutations leave the list as it
  is (the list changes only through a refetch), and a refetch leaves the table as it is.\<close>

lemma useNotes_call_frame:
  "op \<noteq> Hook_refetch \<Longrightarrow> fst (snd (snd (useNotes_call rls sess fail op (st, h)))) = h"
  "fst (snd (useNotes_call rls sess fail Hook_refetch (st, h))) = st"
  by (cases op; simp add: useNotes_call_def split: prod.splits)+

section \<open>Properties\<close>

text \<open>C13: a successful \<open>createNote\<close> returns a row titled "Untitled Note" with empty
  content, no tags, not favourite and not public, owned by the session user; the next
  fetch lists it, under any read policy that lets owners see their rows.\<close>

theorem createNote_appears:
  assumes "\<forall>m. owns (Some u) m \<longrightarrow> rls (Some u) m"
    and "createNote (Some u) None st = (Some n, st', ts)"
  shows "title n = ''Untitled Note'' \<and> content n = [] \<and> tags n = [] \<and>
         \<not> is_favorite n \<and> \<not> is_public n \<and> user_id n = u \<and>
         n \<in> set (hook_notes (fst (fetchNotes rls (Some u) None st' h)))"
proof -
  from assms(2) have ins: "store_insert u ''Untitled Note'' [] [] st = (n, st')"
    by (simp add: createNote_Some_iff)
  then have r: "rows st' = rows st @ [n]"
    and n: "n = new_note_row (next_id st) u (clock st) ''Untitled Note'' [] []"
    by (simp_all add: store_insert_rows)
  have "owns (Some u) n" using n by (simp add: owns_def)
  with assms(1) have "rls (Some u) n" by blast
  with r n show ?thesis by (simp add: new_note_row_def)
qed

theorem createNote_appears_witness:
  "new_note_row 0 1 0 ''Untitled Note'' [] []
     \<in> set (hook_notes (fst (fetchNotes owner_only (Some 1) None
                            (snd (store_insert 1 ''Untitled Note'' [] [] store_empty)) useNotes_init)))"
proof -
  have p: "\<forall>m. owns (Some 1) m \<longrightarrow> owner_only (Some 1) m" by (simp add: owner_only_def)
  have c: "createNote (Some 1) None store_empty =
           (Some (new_note_row 0 1 0 ''Untitled Note'' [] []),
            snd (store_insert 1 ''Untitled Note'' [] [] store_empty),
            [ok_toast ''Note created'' ''Your new note is ready''])"
    by (simp add: createNote_def store_insert_def store_empty_def Let_def)
  show ?thesis using p createNote_appears [where rls = owner_only and u = 1, OF p c, of useNotes_init] by simp
qed

text \<open>C14: without a signed-in user, or when the insert fails, \<open>createNote\<close> returns
  \<open>null\<close>, leaves the table unchanged and raises one destructive toast.\<close>

theorem createNote_errors:
  assumes "sess = None \<or> fail \<noteq> None"
  shows "createNote sess fail st =
           (None, st, [err_toast ''Error creating note''
                        (if sess = None then Gw_error ''Not authenticated'' else the fail)])"
  using assms by (auto simp: createNote_def split: option.splits)

theorem createNote_errors_witness:
  "createNote None None store_empty =
     (None, store_empty, [err_toast ''Error creating note'' (Gw_error ''Not authenticated'')])"
  using createNote_errors [of None None store_empty] by simp

text \<open>C15: after the owner deletes a note successfully, its id is absent from the list
  the next fetch stores, whatever the read policy.\<close>

theorem deleteNote_absent:
  assumes "\<forall>m \<in> set (rows st). note_id m = i \<longrightarrow> user_id m = u"
  shows "i \<notin> note_id ` set (hook_notes (fst (fetchNotes rls sess None (fst (deleteNote (Some u) i None st)) h)))"
  using assms by (auto simp: deleteNote_def owns_def)

theorem deleteNote_absent_witness:
  "0 \<notin> note_id ` set (hook_notes (fst (fetchNotes owner_only (Some 1) None
        (fst (deleteNote (Some 1) 0 None (snd (store_insert 1 ''t'' [] [] store_empty)))) useNotes_init)))"
proof -
  have "\<forall>m \<in> set (rows (snd (store_insert 1 ''t'' [] [] store_empty))). note_id m = 0 \<longrightarrow> user_id m = 1"
    by (simp add: store_insert_def store_empty_def new_note_row_def Let_def)
  then show ?thesis by (rule deleteNote_absent)
qed

text \<open>C16: deleting a row the session does not own is reported as a success ("Note
  deleted") although the row stays in the table.\<close>

theorem deleteNote_foreign_reports_success:
  assumes "n \<in> set (rows st)" and "\<not> owns (Some u) n"
  shows "n \<in> set (rows (fst (deleteNote (Some u) (note_id n) None st))) \<and>
         snd (deleteNote (Some u) (note_id n) None st) = [ok_toast ''Note deleted'' ''Your note has been removed'']"
  using assms by (simp add: deleteNote_def)

theorem deleteNote_foreign_reports_success_witness:
  "new_note_row 0 2 0 ''t'' [] [] \<in> set (rows (fst (deleteNote (Some 1) 0 None (snd (store_insert 2 ''t'' [] [] store_empty)))))"
proof -
  have "new_note_row 0 2 0 ''t'' [] [] \<in> set (rows (snd (store_insert 2 ''t'' [] [] store_empty)))"
    by (simp add: store_insert_def store_empty_def Let_def)
  moreover have "\<not> owns (Some 1) (new_note_row 0 2 0 ''t'' [] [])" by (simp add: owns_def)
  ultimately show ?thesis using deleteNote_foreign_reports_success by fastforce
qed

text \<open>C17: the dashboard fetch has no owner filter: every row the public-notes query can
  return is also in the dashboard list, so under the read policy the public page needs,
  another user's public note appears among "your" notes.\<close>

theorem fetchNotes_lists_public_rows:
  "set (select_public rls sess st) \<subseteq> set (hook_notes (fst (fetchNotes rls sess None st h))) \<and>
   {n \<in> set (rows st). is_public n} \<subseteq> set (hook_notes (fst (fetchNotes owner_or_public sess None st h)))"
  by (auto simp: owner_or_public_def)

text \<open>C18: the continuation of \<open>fetchNotes\<close> always clears the loading flag; on error
  it keeps the previous list and raises one destructive toast, on success it stores the
  rows and raises none.\<close>

theorem fetchNotes_settle_outcome:
  "\<not> isLoading (fst (fetchNotes_settle r h)) \<and>
   (case r of
      Inl e \<Rightarrow> hook_notes (fst (fetchNotes_settle r h)) = hook_notes h \<and>
               snd (fetchNotes_settle r h) = [err_toast ''Error loading notes'' e]
    | Inr d \<Rightarrow> hook_notes (fst (fetchNotes_settle r h)) = d \<and> snd (fetchNotes_settle r h) = [])"
  by (cases r) simp_all

end
