(* ===== verification/NoteEditor.thy ===== *)
theory NoteEditor
  imports Store
begin

text \<open>
  The editor of \<open>src/components/dashboard/NoteEditor.tsx\<close>. Its React state is the
  record \<open>editor_state\<close>; the \<open>note\<close> prop is a \<open>note_prop\<close>, the selected row
  paired with the identity of the array it came from (React compares props by
  identity, and every fetch builds new objects). \<open>ed_seen\<close> is the prop value the
  seeding effect last ran with. Each handler returns the next state and the calls it
  makes, in order: \<open>onUpdateNote(id, patch)\<close>, \<open>functions.invoke("summarize-note")\<close>
  and toasts. \<open>editor_step\<close> dispatches the UI events of the rendered editor (inputs
  exist only while a note is selected) and the arrival of the summarize response;
  \<open>editor_view\<close> is what it renders.
\<close>

type_synonym note_prop = "(nat \<times> Note) option"

record editor_state =
  ed_title :: string
  ed_content :: string
  ed_tags :: "string list"
  newTag :: string
  isFavorite :: bool
  isSummarizing :: bool
  summary :: string
  ed_seen :: note_prop

datatype editor_call =
    Call_update nid note_patch
  | Call_summarize string
  | Call_toast toast

definition editor_init :: editor_state where
  "editor_init = \<lparr>ed_title = [], ed_content = [], ed_tags = [], newTag = [], isFavorite = False,
                  isSummarizing = False, summary = [], ed_seen = None\<rparr>"

text \<open>The effect on \<open>[note]\<close>: when the prop differs from the one the effect last saw
  and a note is present, the draft is seeded from it and the summary cleared.\<close>

definition editor_sync :: "note_prop \<Rightarrow> editor_state \<Rightarrow> editor_state" where
  "editor_sync p e =
     (if p = ed_seen e then e
      else (case p of
              None \<Rightarrow> e\<lparr>ed_seen := p\<rparr>
            | Some (_, n) \<Rightarrow>
                e\<lparr>ed_title := title n, ed_content := content n, ed_tags := tags n,
                  isFavorite := is_favorite n, summary := [], ed_seen := p\<rparr>))"

definition patch_tags :: "string list \<Rightarrow> note_patch" where
  "patch_tags ts = \<lparr>p_title = None, p_content = None, p_tags = Some ts, p_is_favorite = None\<rparr>"

definition patch_favorite :: "bool \<Rightarrow> note_patch" where
  "patch_favorite b = \<lparr>p_title = None, p_content = None, p_tags = None, p_is_favorite = Some b\<rparr>"

definition update_call :: "note_prop \<Rightarrow> note_patch \<Rightarrow> editor_call list" where
  "update_call p q = (case p of None \<Rightarrow> [] | Some (_, n) \<Rightarrow> [Call_update (note_id n) q])"

definition handleSave :: "note_prop \<Rightarrow> editor_state \<Rightarrow> editor_call list" where
  "handleSave p e =
     update_call p \<lparr>p_title = Some (ed_title e), p_content = Some (ed_content e),
                    p_tags = Some (ed_tags e), p_is_favorite = Some (isFavorite e)\<rparr>"

definition handleAddTag :: "note_prop \<Rightarrow> editor_state \<Rightarrow> editor_state \<times> editor_call list" where
  "handleAddTag p e =
     (let t = js_trim (newTag e) in
      if js_truthy t \<and> t \<notin> set (ed_tags e) then
        (let ts = ed_tags e @ [t] in (e\<lparr>ed_tags := ts, newTag := []\<rparr>, update_call p (patch_tags ts)))
      else (e, []))"

definition handleRemoveTag :: "note_prop \<Rightarrow> string \<Rightarrow> editor_state \<Rightarrow> editor_state \<times> editor_call list" where
  "handleRemoveTag p t e =
     (let ts = filter (\<lambda>x. x \<noteq> t) (ed_tags e) in (e\<lparr>ed_tags := ts\<rparr>, update_call p (patch_tags ts)))"

definition handleToggleFavorite :: "note_prop \<Rightarrow> editor_state \<Rightarrow> editor_state \<times> editor_call list" where
  "handleToggleFavorite p e =
     (let b = \<not> isFavorite e in (e\<lparr>isFavorite := b\<rparr>, update_call p (patch_favorite b)))"

definition no_content_toast :: toast where
  "no_content_toast = \<lparr>toast_title = ''No content'',
                        toast_description = ''Please add some content to summarize'', destructive = True\<rparr>"

text \<open>\<open>handleSummarize\<close> up to its \<open>await\<close>: the guard on blank content, then
  \<open>setIsSummarizing(true)\<close> and the call.\<close>

definition handleSummarize :: "editor_state \<Rightarrow> editor_state \<times> editor_call list" where
  "handleSummarize e =
     (if \<not> js_truthy (js_trim (ed_content e)) then (e, [Call_toast no_content_toast])
      else (e\<lparr>isSummarizing := True\<rparr>, [Call_summarize (ed_content e)]))"

text \<open>Its continuation: the response is the function's \<open>error\<close> or its \<open>data\<close>, of which
  only \<open>data?.summary\<close> is read; \<open>finally\<close> clears the flag.\<close>

definition summarize_settle :: "string option gw \<Rightarrow> editor_state \<Rightarrow> editor_state \<times> editor_call list" where
  "summarize_settle r e =
     (case r of
        Inl err \<Rightarrow>
          (e\<lparr>isSummarizing := False\<rparr>,
           [Call_toast \<lparr>toast_title = ''Summarization failed'',
                        toast_description = (if js_truthy (message err) then message err
                                             else ''Failed to generate summary''),
                        destructive = True\<rparr>])
      | Inr (Some s) \<Rightarrow>
          (if js_truthy s
           then (e\<lparr>summary := s, isSummarizing := False\<rparr>,
                 [Call_toast (ok_toast ''Summary generated!'' ''Your note has been summarized by AI'')])
           else (e\<lparr>isSummarizing := False\<rparr>, []))
      | Inr None \<Rightarrow> (e\<lparr>isSummarizing := False\<rparr>, []))"

text \<open>The Summarize button: \<open>disabled={isSummarizing || !content.trim()}\<close>.\<close>

definition summarize_enabled :: "editor_state \<Rightarrow> bool" where
  "summarize_enabled e \<longleftrightarrow> \<not> isSummarizing e \<and> js_truthy (js_trim (ed_content e))"

datatype editor_event =
    Ed_type_title string
  | Ed_type_content string
  | Ed_type_newTag string
  | Ed_blur
  | Ed_click_save
  | Ed_add_tag
  | Ed_remove_tag string
  | Ed_toggle_favorite
  | Ed_click_summarize
  | Ed_summary_response "string option gw"

definition is_response :: "editor_event \<Rightarrow> bool" where
  "is_response ev = (case ev of Ed_summary_response _ \<Rightarrow> True | _ \<Rightarrow> False)"

text \<open>One event of the editor. UI events need the rendered editor (a selected note; a
  tag's remove button exists only for a tag of the draft); the summarize response can
  arrive at any time after a request.\<close>

fun editor_step :: "note_prop \<Rightarrow> editor_state \<Rightarrow> editor_event \<Rightarrow> editor_state \<times> editor_call list" where
  "editor_step p e (Ed_summary_response r) = summarize_settle r e"
| "editor_step None e _ = (e, [])"
| "editor_step (Some pn) e ev =
     (let p = Some pn in
      case ev of
        Ed_type_title s \<Rightarrow> (e\<lparr>ed_title := s\<rparr>, [])
      | Ed_type_content s \<Rightarrow> (e\<lparr>ed_content := s\<rparr>, [])
      | Ed_type_newTag s \<Rightarrow> (e\<lparr>newTag := s\<rparr>, [])
      | Ed_blur \<Rightarrow> (e, handleSave p e)
      | Ed_click_save \<Rightarrow> (e, handleSave p e)
      | Ed_add_tag \<Rightarrow> handleAddTag p e
      | Ed_remove_tag t \<Rightarrow> (if t \<in> set (ed_tags e) then handleRemoveTag p t e else (e, []))
      | Ed_toggle_favorite \<Rightarrow> handleToggleFavorite p e
      | Ed_click_summarize \<Rightarrow> (if summarize_enabled e then handleSummarize e else (e, []))
      | Ed_summary_response r \<Rightarrow> summarize_settle r e)"

text \<open>What the editor renders: without a note the "Select a note" placeholder;
  with one the title and content fields, the star (filled when favourite), one badge
  per draft tag, the new-tag field, the Summarize button's label and disabled state,
  and the summary card, or the hint when the summary is empty.\<close>

record editor_form =
  ef_title :: string
  ef_star_filled :: bool
  ef_tags :: "string list"
  ef_newTag :: string
  ef_content :: string
  ef_summarize_label :: string
  ef_summarize_disabled :: bool
  ef_summary :: "string option"

datatype editor_screen = Editor_placeholder | Editor_form editor_form

definition editor_view :: "note_prop \<Rightarrow> editor_state \<Rightarrow> editor_screen" where
  "editor_view p e =
     (case p of
        None \<Rightarrow> Editor_placeholder
      | Some _ \<Rightarrow> Editor_form
          \<lparr>ef_title = ed_title e, ef_star_filled = isFavorite e, ef_tags = ed_tags e,
           ef_newTag = newTag e, ef_content = ed_content e,
           ef_summarize_label = (if isSummarizing e then ''Summarizing...'' else ''Summarize''),
           ef_summarize_disabled = \<not> summarize_enabled e,
           ef_summary = (if js_truthy (summary e) then Some (summary e) else None)\<rparr>)"

section \<open>The editor with the summarize service\<close>

text \<open>What the editor sees over time: a new \<open>note\<close> prop from the dashboard (the
  effect then runs), or one of its events. \<open>ed_sys\<close> adds the number of summarize
  requests in flight: each \<open>Call_summarize\<close> adds one, each response consumes one, and
  no response arrives without a request.\<close>

datatype editor_input = Prop_change note_prop | Ev editor_event

type_synonym ed_sys = "note_prop \<times> editor_state \<times> nat"

definition count_summarize :: "editor_call list \<Rightarrow> nat" where
  "count_summarize cs = length (filter (\<lambda>c. case c of Call_summarize _ \<Rightarrow> True | _ \<Rightarrow> False) cs)"

fun ed_sys_step :: "ed_sys \<Rightarrow> editor_input \<Rightarrow> ed_sys" where
  "ed_sys_step (p, e, k) (Prop_change p') = (p', editor_sync p' e, k)"
| "ed_sys_step (p, e, k) (Ev (Ed_summary_response r)) =
     (if k = 0 then (p, e, k) else (p, fst (summarize_settle r e), k - 1))"
| "ed_sys_step (p, e, k) (Ev ev) =
     (let (e', cs) = editor_step p e ev in (p, e', k + count_summarize cs))"

fun ed_sys_run :: "ed_sys \<Rightarrow> editor_input list \<Rightarrow> ed_sys" where
  "ed_sys_run s [] = s"
| "ed_sys_run s (i # ins) = ed_sys_run (ed_sys_step s i) ins"

definition summarize_inv :: "ed_sys \<Rightarrow> bool" where
  "summarize_inv s \<longleftrightarrow> (case s of (p, e, k) \<Rightarrow> k \<le> 1 \<and> (isSummarizing e \<longleftrightarrow> k = 1))"

section \<open>Lemmas\<close>

lemma update_call_simps [simp]:
  "update_call None q = []" "update_call (Some (g, n)) q = [Call_update (note_id n) q]"
  by (simp_all add: update_call_def)

lemma count_summarize_simps [simp]:
  "count_summarize [] = 0"
  "count_summarize (Call_summarize c # cs) = Suc (count_summarize cs)"
  "count_summarize (Call_update i q # cs) = count_summarize cs"
  "count_summarize (Call_toast t # cs) = count_summarize cs"
  by (simp_all add: count_summarize_def)

lemma count_summarize_update_call [simp]: "count_summarize (update_call p q) = 0"
  by (cases p) auto

lemma isSummarizing_editor_sync [simp]: "isSummarizing (editor_sync p e) = isSummarizing e"
  by (simp add: editor_sync_def split: option.splits prod.splits)

lemma summarize_settle_clears [simp]: "\<not> isSummarizing (fst (summarize_settle r e))"
  by (simp add: summarize_settle_def split: sum.splits option.splits)

lemma handleAddTag_cases:
  "handleAddTag p e =
     (if js_truthy (js_trim (newTag e)) \<and> js_trim (newTag e) \<notin> set (ed_tags e)
      then (e\<lparr>ed_tags := ed_tags e @ [js_trim (newTag e)], newTag := []\<rparr>,
            update_call p (patch_tags (ed_tags e @ [js_trim (newTag e)])))
      else (e, []))"
  by (simp add: handleAddTag_def Let_def)

text \<open>The events other than the summarize button and the response neither touch the
  flag nor call the service.\<close>

lemma editor_step_other:
  assumes "ev \<noteq> Ed_click_summarize" and "\<forall>r. ev \<noteq> Ed_summary_response r"
  shows "isSummarizing (fst (editor_step p e ev)) = isSummarizing e \<and>
         count_summarize (snd (editor_step p e ev)) = 0"
proof (cases p)
  case None
  then show ?thesis using assms by (cases ev) auto
next
  case (Some pn)
  then show ?thesis using assms
    by (cases ev) (auto simp: handleSave_def handleAddTag_def handleRemoveTag_def
                             handleToggleFavorite_def Let_def)
qed

lemma editor_step_click:
  "editor_step p e Ed_click_summarize =
     (if p \<noteq> None \<and> summarize_enabled e then handleSummarize e else (e, []))"
  by (cases p) auto

lemma editor_step_summ:
  assumes "\<not> is_response ev" and "k \<le> 1" and "isSummarizing e \<longleftrightarrow> k = 1"
    and "editor_step p e ev = (e', cs)"
  shows "k + count_summarize cs \<le> 1 \<and> (isSummarizing e' \<longleftrightarrow> k + count_summarize cs = 1)"
proof (cases "ev = Ed_click_summarize")
  case True
  then show ?thesis using assms
    by (auto simp: editor_step_click handleSummarize_def summarize_enabled_def split: if_splits)
next
  case False
  have "\<forall>r. ev \<noteq> Ed_summary_response r" using assms(1) by (auto simp: is_response_def)
  with False have "isSummarizing e' = isSummarizing e \<and> count_summarize cs = 0"
    using editor_step_other [of ev p e] assms(4) by simp
  then show ?thesis using assms(2,3) by simp
qed

lemma count_summarize_settle [simp]: "count_summarize (snd (summarize_settle r e)) = 0"
  by (simp add: summarize_settle_def split: sum.splits option.splits)

lemma ed_sys_step_inv:
  assumes "summarize_inv s"
  shows "summarize_inv (ed_sys_step s i)"
proof -
  obtain p e k where s: "s = (p, e, k)" by (cases s)
  show ?thesis
  proof (cases i)
    case (Prop_change p')
    then show ?thesis using assms s by (simp add: summarize_inv_def)
  next
    case (Ev ev)
    show ?thesis
    proof (cases "is_response ev")
      case True
      then show ?thesis using assms s Ev by (cases ev) (auto simp: summarize_inv_def is_response_def)
    next
      case False
      obtain e' cs where ec: "editor_step p e ev = (e', cs)" by fastforce
      have "ed_sys_step s i = (p, e', k + count_summarize cs)"
        using s Ev ec False by (cases ev) (auto simp: is_response_def)
      moreover have "k \<le> 1" "isSummarizing e \<longleftrightarrow> k = 1"
        using assms s by (simp_all add: summarize_inv_def)
      ultimately show ?thesis using editor_step_summ [OF False _ _ ec] by (simp add: summarize_inv_def)
    qed
  qed
qed

section \<open>Properties\<close>

text \<open>C19: adding a tag keeps the draft's tags duplicate-free and free of blank
  entries.\<close>

theorem handleAddTag_keeps_distinct:
  assumes "distinct (ed_tags e)" and "\<forall>t \<in> set (ed_tags e). js_truthy t"
  shows "distinct (ed_tags (fst (handleAddTag p e))) \<and>
         (\<forall>t \<in> set (ed_tags (fst (handleAddTag p e))). js_truthy t)"
  using assms by (simp add: handleAddTag_cases)

theorem handleAddTag_keeps_distinct_witness:
  "distinct (ed_tags (fst (handleAddTag None (editor_init\<lparr>ed_tags := [''a''], newTag := '' b ''\<rparr>))))"
proof -
  have "distinct (ed_tags (editor_init\<lparr>ed_tags := [''a''], newTag := '' b ''\<rparr>))"
    and "\<forall>t \<in> set (ed_tags (editor_init\<lparr>ed_tags := [''a''], newTag := '' b ''\<rparr>)). js_truthy t"
    by simp_all
  then show ?thesis using handleAddTag_keeps_distinct by blast
qed

text \<open>C20: adding a tag that is already present (after trimming) changes nothing and
  sends no update.\<close>

theorem handleAddTag_present_noop:
  assumes "js_trim (newTag e) \<in> set (ed_tags e)"
  shows "handleAddTag p e = (e, [])"
  using assms by (simp add: handleAddTag_cases)

theorem handleAddTag_present_noop_witness:
  "handleAddTag None (editor_init\<lparr>ed_tags := [''a''], newTag := '' a''\<rparr>) =
     (editor_init\<lparr>ed_tags := [''a''], newTag := '' a''\<rparr>, [])"
proof -
  have "js_trim (newTag (editor_init\<lparr>ed_tags := [''a''], newTag := '' a''\<rparr>))
          \<in> set (ed_tags (editor_init\<lparr>ed_tags := [''a''], newTag := '' a''\<rparr>))"
    by code_simp
  then show ?thesis by (rule handleAddTag_present_noop)
qed

text \<open>C21: adding a new non-blank tag appends its trimmed text to the draft, clears
  the input, and persists the whole new tag list at once.\<close>

theorem handleAddTag_appends:
  assumes "js_truthy (js_trim (newTag e))" and "js_trim (newTag e) \<notin> set (ed_tags e)"
  shows "handleAddTag (Some (g, n)) e =
           (e\<lparr>ed_tags := ed_tags e @ [js_trim (newTag e)], newTag := []\<rparr>,
            [Call_update (note_id n) (patch_tags (ed_tags e @ [js_trim (newTag e)]))])"
  using assms by (simp add: handleAddTag_cases)

theorem handleAddTag_appends_witness:
  "handleAddTag (Some (0, new_note_row 7 1 0 [] [] [])) (editor_init\<lparr>newTag := '' x ''\<rparr>) =
     (editor_init\<lparr>ed_tags := [''x''], newTag := []\<rparr>, [Call_update 7 (patch_tags [''x''])])"
proof -
  have t: "js_trim (newTag (editor_init\<lparr>newTag := '' x ''\<rparr>)) = ''x''" by code_simp
  have "js_truthy (js_trim (newTag (editor_init\<lparr>newTag := '' x ''\<rparr>)))"
    and "js_trim (newTag (editor_init\<lparr>newTag := '' x ''\<rparr>)) \<notin> set (ed_tags (editor_init\<lparr>newTag := '' x ''\<rparr>))"
    using t by (simp_all add: editor_init_def)
  from handleAddTag_appends [OF this, of 0 "new_note_row 7 1 0 [] [] []"] t show ?thesis
    by (simp add: editor_init_def)
qed

text \<open>C22: removing a tag drops every copy of it, keeps the other tags in order, and
  persists the resulting list.\<close>

theorem handleRemoveTag_removes:
  "t \<notin> set (ed_tags (fst (handleRemoveTag p t e))) \<and>
   set (ed_tags (fst (handleRemoveTag p t e))) = set (ed_tags e) - {t} \<and>
   subseq (ed_tags (fst (handleRemoveTag p t e))) (ed_tags e) \<and>
   snd (handleRemoveTag p t e) = update_call p (patch_tags (ed_tags (fst (handleRemoveTag p t e))))"
  by (auto simp: handleRemoveTag_def Let_def)

text \<open>C23: with blank content the summarize handler makes no remote call and raises
  the "No content" toast; but the button is disabled then, so a click does nothing and
  the toast is never shown.\<close>

theorem summarize_blank_no_call:
  assumes "\<not> js_truthy (js_trim (ed_content e))"
  shows "handleSummarize e = (e, [Call_toast no_content_toast]) \<and>
         editor_step p e Ed_click_summarize = (e, [])"
  using assms by (simp add: handleSummarize_def editor_step_click summarize_enabled_def)

theorem summarize_blank_no_call_witness:
  "editor_step (Some (0, new_note_row 0 0 0 [] [] [])) (editor_init\<lparr>ed_content := '' ''\<rparr>) Ed_click_summarize
     = (editor_init\<lparr>ed_content := '' ''\<rparr>, [])"
proof -
  have "\<not> js_truthy (js_trim (ed_content (editor_init\<lparr>ed_content := '' ''\<rparr>)))" by code_simp
  then show ?thesis using summarize_blank_no_call by blast
qed

text \<open>C24: at most one summarize request is in flight, and the Summarizing flag is set
  exactly while one is: it holds initially and after every prop change and event.\<close>

theorem summarize_at_most_one:
  assumes "summarize_inv s"
  shows "summarize_inv (ed_sys_run s ins)"
  using assms
proof (induction ins arbitrary: s)
  case Nil
  then show ?case by simp
next
  case (Cons i ins)
  then show ?case by (simp add: ed_sys_step_inv)
qed

theorem summarize_at_most_one_witness:
  "summarize_inv (ed_sys_run (None, editor_init, 0)
     [Prop_change (Some (0, new_note_row 0 0 0 [] ''abc'' [])), Ev Ed_click_summarize, Ev Ed_click_summarize])"
proof -
  have "summarize_inv (None, editor_init, 0)" by (simp add: summarize_inv_def editor_init_def)
  then show ?thesis by (rule summarize_at_most_one)
qed

text \<open>C25: a summary requested for one note and answered after the user switched to
  another note is shown for the other note: clearing the summary on a note change does
  not cancel the request in flight.\<close>

theorem stale_summary_shown:
  "ed_sys_run (None, editor_init, 0)
     [Prop_change (Some (0, new_note_row 1 0 0 ''A'' ''alpha'' [])), Ev Ed_click_summarize,
      Prop_change (Some (0, new_note_row 2 0 0 ''B'' ''beta'' [])),
      Ev (Ed_summary_response (Inr (Some ''sum of alpha'')))]
   = (Some (0, new_note_row 2 0 0 ''B'' ''beta'' []),
      editor_init\<lparr>ed_title := ''B'', ed_content := ''beta'', summary := ''sum of alpha'',
                  ed_seen := Some (0, new_note_row 2 0 0 ''B'' ''beta'' [])\<rparr>, 0)"
  by code_simp

text \<open>C26: the seeding effect runs whenever the prop is a new object, also when it is
  the same note re-read by a fetch: the unsaved draft (title, content, tags, favourite)
  is replaced by the stored row and the summary is cleared.\<close>

theorem editor_sync_refetch_replaces_draft:
  assumes "ed_seen e = Some (g, n)" and "g' \<noteq> g" and "note_id n' = note_id n"
  shows "editor_sync (Some (g', n')) e =
           e\<lparr>ed_title := title n', ed_content := content n', ed_tags := tags n',
             isFavorite := is_favorite n', summary := [], ed_seen := Some (g', n')\<rparr>"
  using assms by (simp add: editor_sync_def)

theorem editor_sync_refetch_replaces_draft_witness:
  "editor_sync (Some (1, new_note_row 5 0 0 ''T'' ''saved'' []))
     (editor_init\<lparr>ed_content := ''typed but not saved'', ed_seen := Some (0, new_note_row 5 0 0 ''T'' ''saved'' [])\<rparr>)
   = editor_init\<lparr>ed_title := ''T'', ed_content := ''saved'',
                 ed_seen := Some (1, new_note_row 5 0 0 ''T'' ''saved'' [])\<rparr>"
proof -
  have "ed_seen (editor_init\<lparr>ed_content := ''typed but not saved'', ed_seen := Some (0, new_note_row 5 0 0 ''T'' ''saved'' [])\<rparr>)
          = Some (0, new_note_row 5 0 0 ''T'' ''saved'' [])" by simp
  from editor_sync_refetch_replaces_draft [OF this, of 1 "new_note_row 5 0 0 ''T'' ''saved'' []"]
  show ?thesis by (simp add: editor_init_def new_note_row_def)
qed

text \<open>C27: toggling the favourite twice restores the flag, and the two updates sent
  carry opposite values, the last one the restored flag.\<close>

theorem toggle_favorite_twice:
  "fst (handleToggleFavorite p (fst (handleToggleFavorite p e))) = e \<and>
   snd (handleToggleFavorite p e) = update_call p (patch_favorite (\<not> isFavorite e)) \<and>
   snd (handleToggleFavorite p (fst (handleToggleFavorite p e))) = update_call p (patch_favorite (isFavorite e))"
  by (simp add: handleToggleFavorite_def Let_def)

end
