(* ===== verification/Dashboard.thy ===== *)
theory Dashboard
  imports UseNotes NoteEditor
begin

text \<open>
  The dashboard page of \<open>src/pages/Dashboard.tsx\<close>: the signed-in user, the selected
  note id and the page's own loading flag, the two auth callbacks of its effect, and the
  continuations of the create and delete handlers (which run after the awaited hook
  call). The id compared in \<open>handleDeleteNote\<close>'s continuation is the
  \<open>selectedNoteId\<close> of the render in which the delete button was clicked: the handler
  closes over it, so it is an argument here. Navigation is the path passed to
  \<open>navigate\<close>.
\<close>

record dashboard_state =
  dash_user :: "uid option"
  selectedNoteId :: "nid option"
  dash_loading :: bool

definition dashboard_init :: dashboard_state where
  "dashboard_init = \<lparr>dash_user = None, selectedNoteId = None, dash_loading = True\<rparr>"

text \<open>\<open>notes.find(note => note.id === selectedNoteId)\<close>, paired with the identity of the
  notes array it is read from.\<close>

definition selectedNote :: "hook_state \<Rightarrow> dashboard_state \<Rightarrow> note_prop" where
  "selectedNote h d =
     (case selectedNoteId d of
        None \<Rightarrow> None
      | Some i \<Rightarrow> map_option (\<lambda>n. (notes_gen h, n)) (find (\<lambda>n. note_id n = i) (hook_notes h)))"

text \<open>The \<open>onAuthStateChange\<close> callback and the \<open>getSession().then\<close> continuation.\<close>

definition on_auth_change :: "uid option \<Rightarrow> dashboard_state \<Rightarrow> dashboard_state \<times> string option" where
  "on_auth_change s d = (d\<lparr>dash_user := s\<rparr>, if s = None then Some ''/auth'' else None)"

definition on_session :: "uid option \<Rightarrow> dashboard_state \<Rightarrow> dashboard_state \<times> string option" where
  "on_session s d =
     (if s = None then (d\<lparr>dash_user := s\<rparr>, Some ''/auth'')
      else (d\<lparr>dash_user := s, dash_loading := False\<rparr>, None))"

definition handleCreateNote_done :: "Note option \<Rightarrow> dashboard_state \<Rightarrow> dashboard_state" where
  "handleCreateNote_done r d = (case r of None \<Rightarrow> d | Some n \<Rightarrow> d\<lparr>selectedNoteId := Some (note_id n)\<rparr>)"

definition handleDeleteNote_done :: "nid \<Rightarrow> nid option \<Rightarrow> dashboard_state \<Rightarrow> dashboard_state" where
  "handleDeleteNote_done i captured d =
     (if captured = Some i then d\<lparr>selectedNoteId := None\<rparr> else d)"

text \<open>\<open>onSelectNote={setSelectedNoteId}\<close>.\<close>

definition selectNote :: "nid \<Rightarrow> dashboard_state \<Rightarrow> dashboard_state" where
  "selectNote i d = d\<lparr>selectedNoteId := Some i\<rparr>"

section \<open>Lemmas\<close>

lemma selectedNote_Some:
  "selectedNote h d = Some (g, n) \<Longrightarrow>
     g = notes_gen h \<and> n \<in> set (hook_notes h) \<and> selectedNoteId d = Some (note_id n)"
  by (auto simp: selectedNote_def split: option.splits dest: find_Some_iff [THEN iffD1])

lemma selectedNote_None_iff:
  "selectedNote h d = None \<longleftrightarrow>
     (case selectedNoteId d of None \<Rightarrow> True | Some i \<Rightarrow> i \<notin> note_id ` set (hook_notes h))"
  by (auto simp: selectedNote_def find_None_iff split: option.splits)

lemma handleDeleteNote_done_selected [simp]:
  "selectedNoteId (handleDeleteNote_done i c d) = (if c = Some i then None else selectedNoteId d)"
  by (simp add: handleDeleteNote_done_def)

end
