(* ===== verification/NotesList.thy ===== *)
theory NotesList
  imports Store
begin

text \<open>
  The list view of \<open>src/components/dashboard/NotesList.tsx\<close>. Its local state is the
  search text and the selected tag; what it computes on every render is the tag index
  \<open>allTags\<close> (distinct tags of all notes, sorted) and the filtered list, from which it
  renders either a loading line, a placeholder message, or the rows, each with its
  title, preview, star, highlight, date and first tags; a click on a row reaches the
  row's handler and the delete button's by DOM bubbling. The filter compares
  lower-cased strings by substring, and treats the selected tag with JS truthiness
  (\<open>!selectedTag\<close> is also true for the empty tag).
\<close>

record list_state =
  searchQuery :: string
  selectedTag :: "string option"

definition notesList_init :: list_state where
  "notesList_init = \<lparr>searchQuery = [], selectedTag = None\<rparr>"

definition allTags :: "Note list \<Rightarrow> string list" where
  "allTags ns = sort (js_set_values (concat (map tags ns)))"

definition matchesSearch :: "string \<Rightarrow> Note \<Rightarrow> bool" where
  "matchesSearch q n \<longleftrightarrow>
     js_includes (js_toLowerCase (title n)) (js_toLowerCase q) \<or>
     js_includes (js_toLowerCase (content n)) (js_toLowerCase q)"

definition matchesTag :: "string option \<Rightarrow> Note \<Rightarrow> bool" where
  "matchesTag sel n \<longleftrightarrow> (case sel of None \<Rightarrow> True | Some t \<Rightarrow> \<not> js_truthy t \<or> t \<in> set (tags n))"

definition filteredNotes :: "string \<Rightarrow> string option \<Rightarrow> Note list \<Rightarrow> Note list" where
  "filteredNotes q sel ns = filter (\<lambda>n. matchesSearch q n \<and> matchesTag sel n) ns"

text \<open>What the scroll area shows: \<open>isLoading\<close> first, then the placeholder when nothing
  passes the filter (worded by \<open>searchQuery || selectedTag\<close>), else the rows.\<close>

datatype list_view = Loading_view | Placeholder string | Note_rows "Note list"

definition notesList_view :: "bool \<Rightarrow> list_state \<Rightarrow> Note list \<Rightarrow> list_view" where
  "notesList_view loading ls ns =
     (let fs = filteredNotes (searchQuery ls) (selectedTag ls) ns in
      if loading then Loading_view
      else if fs = [] then
        Placeholder (if js_truthy (searchQuery ls) \<or> (case selectedTag ls of None \<Rightarrow> False | Some t \<Rightarrow> js_truthy t)
                     then ''No notes found'' else ''No notes yet. Create your first note!'')
      else Note_rows fs)"

section \<open>Rows\<close>

text \<open>One rendered row: the title (or "Untitled Note"), the content preview (or
  "Empty note"), the favourite star, the highlight of the selected row, the date of the
  last update (its formatting by \<open>date-fns\<close> is left out) and the tag badges, the
  first three tags (\<open>tags.slice(0, 3)\<close>; an empty tag list renders no badge row).\<close>

record row_view =
  rv_id :: nid
  rv_title :: string
  rv_preview :: string
  rv_favorite :: bool
  rv_selected :: bool
  rv_date :: timestamp
  rv_tags :: "string list"

definition tag_badges :: "string list \<Rightarrow> string list" where
  "tag_badges ts = (if ts \<noteq> [] then js_slice 0 3 ts else [])"

definition note_row :: "nid option \<Rightarrow> Note \<Rightarrow> row_view" where
  "note_row sel n =
     \<lparr>rv_id = note_id n, rv_title = js_or (title n) ''Untitled Note'',
      rv_preview = js_or (content n) ''Empty note'', rv_favorite = is_favorite n,
      rv_selected = (sel = Some (note_id n)), rv_date = updated_at n, rv_tags = tag_badges (tags n)\<rparr>"

definition rendered_rows :: "nid option \<Rightarrow> list_view \<Rightarrow> row_view list" where
  "rendered_rows sel v = (case v of Note_rows fs \<Rightarrow> map (note_row sel) fs | _ \<Rightarrow> [])"

text \<open>A click on a row is dispatched by the DOM from the element clicked up to the row:
  each handler on the way runs in that order, and one that calls
  \<open>e.stopPropagation()\<close> ends the bubbling. The row's \<open>onClick\<close> selects the note; the
  delete button's stops the propagation and then deletes it.\<close>

datatype row_target = Row_area | Delete_btn

datatype list_action = Select_note nid | Delete_note nid

fun bubble :: "(list_action list \<times> bool) list \<Rightarrow> list_action list" where
  "bubble [] = []"
| "bubble ((acts, stop) # hs) = acts @ (if stop then [] else bubble hs)"

definition row_handler :: "nid \<Rightarrow> list_action list \<times> bool" where
  "row_handler i = ([Select_note i], False)"

definition delete_handler :: "nid \<Rightarrow> list_action list \<times> bool" where
  "delete_handler i = ([Delete_note i], True)"

primrec row_click :: "nid \<Rightarrow> row_target \<Rightarrow> list_action list" where
  "row_click i Row_area = bubble [row_handler i]"
| "row_click i Delete_btn = bubble [delete_handler i, row_handler i]"

section \<open>Lemmas\<close>

lemma matchesSearch_sublist:
  "matchesSearch q n \<longleftrightarrow>
     sublist (js_toLowerCase q) (js_toLowerCase (title n)) \<or>
     sublist (js_toLowerCase q) (js_toLowerCase (content n))"
  by (simp add: matchesSearch_def js_includes_sublist)

lemma matchesTag_None [simp]: "matchesTag None n"
  by (simp add: matchesTag_def)

lemma set_filteredNotes:
  "set (filteredNotes q sel ns) = {n \<in> set ns. matchesSearch q n \<and> matchesTag sel n}"
  by (auto simp: filteredNotes_def)

lemma allTags_sorted_list_of_set:
  "allTags ns = sorted_list_of_set (set (concat (map tags ns)))"
proof -
  let ?xs = "concat (map tags ns)"
  have "allTags ns = sort (remdups (js_set_values ?xs))"
    by (simp add: allTags_def distinct_remdups_id)
  also have "\<dots> = sorted_list_of_set (set ?xs)"
    by (simp only: sorted_list_of_set_sort_remdups [symmetric] set_js_set_values)
  finally show ?thesis .
qed

lemma length_filter_key_le1:
  "distinct (map f xs) \<Longrightarrow> length (filter (\<lambda>x. f x = c) xs) \<le> 1"
proof (induction xs)
  case (Cons a xs)
  show ?case
  proof (cases "f a = c")
    case True
    have "f a \<notin> f ` set xs" using Cons.prems by simp
    with True have "\<forall>x \<in> set xs. f x \<noteq> c" by blast
    then have "filter (\<lambda>x. f x = c) xs = []" by (simp add: filter_empty_conv)
    with True show ?thesis by simp
  next
    case False
    with Cons show ?thesis by simp
  qed
qed simp

lemma length_tag_badges: "length (tag_badges ts) \<le> 3"
  by (simp add: tag_badges_def js_slice_def)

lemma distinct_filteredNotes_ids:
  "distinct (map note_id ns) \<Longrightarrow> distinct (map note_id (filteredNotes q sel ns))"
  by (simp add: filteredNotes_def distinct_map_filter)

lemma rendered_rows_selected:
  assumes "distinct (map note_id ns)"
  shows "length (filter rv_selected (rendered_rows sel (notesList_view b ls ns))) \<le> 1"
proof -
  let ?fs = "filteredNotes (searchQuery ls) (selectedTag ls) ns"
  have d: "distinct (map note_id ?fs)" using assms by (rule distinct_filteredNotes_ids)
  have "length (filter rv_selected (map (note_row sel) ?fs)) \<le> 1"
  proof (cases sel)
    case (Some c)
    have "filter rv_selected (map (note_row sel) ?fs) = map (note_row sel) (filter (\<lambda>n. note_id n = c) ?fs)"
      by (simp add: filter_map comp_def note_row_def Some eq_commute)
    with length_filter_key_le1 [OF d, of c] show ?thesis by simp
  qed (simp add: filter_map comp_def note_row_def)
  then show ?thesis
    by (simp add: rendered_rows_def notesList_view_def Let_def)
qed

lemma filteredNotes_no_tag:
  "filteredNotes q None ns = filter (matchesSearch q) ns \<and> filteredNotes [] None ns = ns"
proof
  show "filteredNotes q None ns = filter (matchesSearch q) ns"
    by (simp add: filteredNotes_def)
  show "filteredNotes [] None ns = ns"
    by (simp add: filteredNotes_def matchesSearch_def)
qed

section \<open>Properties\<close>

text \<open>C9: with no tag selected, a note is listed exactly when the lower-cased query is a
  substring of its lower-cased title or of its lower-cased content; the text filter alone
  is applied, in input order, and the empty query lists every note.\<close>

theorem filteredNotes_search_exact:
  "(n \<in> set (filteredNotes q None ns) \<longleftrightarrow>
     n \<in> set ns \<and>
     (sublist (js_toLowerCase q) (js_toLowerCase (title n)) \<or>
      sublist (js_toLowerCase q) (js_toLowerCase (content n)))) \<and>
   filteredNotes q None ns = filter (matchesSearch q) ns \<and> filteredNotes [] None ns = ns"
  using filteredNotes_no_tag [of q ns] by (simp add: set_filteredNotes matchesSearch_sublist)

text \<open>C10: with a (non-empty) tag selected, every listed note is a note of the input
  that carries the tag, and the filter keeps the input order.\<close>

theorem filteredNotes_tag_filter:
  assumes "js_truthy t" and "n \<in> set (filteredNotes q (Some t) ns)"
  shows "n \<in> set ns \<and> t \<in> set (tags n) \<and> subseq (filteredNotes q (Some t) ns) ns"
  using assms by (auto simp: set_filteredNotes matchesTag_def filteredNotes_def)

theorem filteredNotes_tag_filter_witness:
  "js_truthy ''a'' \<and> new_note_row 0 0 0 ''x'' [] [''a''] \<in> set (filteredNotes [] (Some ''a'') [new_note_row 0 0 0 ''x'' [] [''a'']])
   \<and> ''a'' \<in> set (tags (new_note_row 0 0 0 ''x'' [] [''a'']))"
proof -
  have m: "new_note_row 0 0 0 ''x'' [] [''a''] \<in> set (filteredNotes [] (Some ''a'') [new_note_row 0 0 0 ''x'' [] [''a'']])"
    by (simp add: filteredNotes_def matchesSearch_def matchesTag_def new_note_row_def)
  show ?thesis using m filteredNotes_tag_filter [OF _ m] by simp
qed

text \<open>C12: the tag index is the sorted list of the distinct tags of all notes: it refines
  the set of tags, read back in order.\<close>

theorem allTags_refines:
  "allTags ns = sorted_list_of_set (\<Union>n \<in> set ns. set (tags n))"
  by (simp add: allTags_sorted_list_of_set)

text \<open>C11: a click on a row's delete button deletes that note and, because its handler
  stops the propagation, does not also select it; a click elsewhere on the row selects
  it; a row shows at most three tag badges; and when ids are unique at most one row is
  highlighted as selected.\<close>

theorem row_click_rows:
  "row_click i Delete_btn = [Delete_note i] \<and> row_click i Row_area = [Select_note i] \<and>
   (\<forall>r \<in> set (rendered_rows sel v). length (rv_tags r) \<le> 3) \<and>
   (distinct (map note_id ns) \<longrightarrow>
      length (filter rv_selected (rendered_rows sel (notesList_view b ls ns))) \<le> 1)"
  using rendered_rows_selected [of ns sel b ls]
  by (auto simp: row_handler_def delete_handler_def rendered_rows_def note_row_def length_tag_badges
           split: list_view.splits)

theorem row_click_rows_witness:
  "row_click 0 Delete_btn = [Delete_note 0] \<and>
   length (filter rv_selected (rendered_rows (Some 0) (notesList_view False notesList_init
      [new_note_row 0 1 0 ''t'' [] [], new_note_row 1 1 0 ''u'' [] []]))) \<le> 1"
  using row_click_rows [of 0 "Some 0" Loading_view "[new_note_row 0 1 0 ''t'' [] [], new_note_row 1 1 0 ''u'' [] []]" False notesList_init]
  by simp

end
