(* ===== verification/System.thy ===== *)
theory System
  imports Dashboard NotesList
begin

text \<open>
  The dashboard as one system, composed the way the page composes its parts: the remote
  table and the auth session (external), the \<open>useNotes\<close> state, the dashboard, list
  and editor states, and what is in flight between them. The JS event loop runs one
  callback at a time, so the system is a step function over events; what the
  environment decides (which response comes back next, whether a call fails, when a
  change notification is delivered, what another device writes) is part of the event.
  \<^item> A fetch is evaluated against the table when it is issued (on mount and on every
    delivered change notification); its response waits in \<open>w_fetches\<close> and any of
    them may be delivered next (\<open>Fetch_settle i\<close>): nothing orders overlapping fetches.
  \<^item> Create and delete run at the server when clicked; their continuations (the code
    after \<open>await\<close>) wait in \<open>w_ops\<close>. Delete's continuation compares the id with the
    selection of the render in which it was clicked.
  \<^item> Every change of the table while the channel is subscribed queues one notification
    (\<open>w_notifs\<close>); \<open>Notify\<close> delivers one, which issues a fetch.
  \<^item> Editor calls to \<open>onUpdateNote\<close> are applied at once (their continuation only
    toasts); a summarize call adds a request in flight (\<open>w_summ\<close>).
  \<^item> After every event React re-renders: the editor's effect runs on the selected note.
  UI events need the page to be mounted and past its loading spinner, and a list row's
  buttons exist only for a note the list displays.
\<close>

datatype pending_op =
    Op_create "Note option" "toast list"
  | Op_delete nid "nid option" "toast list"

record world =
  w_store :: store
  w_sess :: "uid option"
  w_hook :: hook_state
  w_dash :: dashboard_state
  w_list :: list_state
  w_editor :: editor_state
  w_fetches :: "Note list gw list"
  w_ops :: "pending_op list"
  w_subscribed :: bool
  w_notifs :: nat
  w_summ :: nat
  w_session_pending :: bool
  w_mounted :: bool
  w_toasts :: "toast list"
  w_route :: string

datatype sys_event =
    Mount "gw_error option"
  | Session_resolved
  | Auth_changed "uid option"
  | Notify "gw_error option"
  | Fetch_settle nat
  | Op_settle nat
  | Click_new "gw_error option"
  | Click_select nid
  | Click_delete nid "gw_error option"
  | Search string
  | Pick_tag "string option"
  | Edit editor_event "gw_error option"
  | Summary_arrives "string option gw"
  | Remote_update uid nid note_patch
  | Click_sign_out
  | Unmount

definition world_init :: "store \<Rightarrow> uid option \<Rightarrow> world" where
  "world_init st s =
     \<lparr>w_store = st, w_sess = s, w_hook = useNotes_init, w_dash = dashboard_init,
      w_list = notesList_init, w_editor = editor_init, w_fetches = [], w_ops = [],
      w_subscribed = False, w_notifs = 0, w_summ = 0, w_session_pending = False,
      w_mounted = False, w_toasts = [], w_route = ''/dashboard''\<rparr>"

section \<open>Plumbing\<close>

definition remove_nth :: "nat \<Rightarrow> 'a list \<Rightarrow> 'a list" where
  "remove_nth i xs = take i xs @ drop (Suc i) xs"

text \<open>A new table: one more notification queued if the channel is subscribed and a row
  changed.\<close>

definition set_store :: "store \<Rightarrow> world \<Rightarrow> world" where
  "set_store st' w =
     w\<lparr>w_store := st',
       w_notifs := (if w_subscribed w \<and> rows st' \<noteq> rows (w_store w) then Suc (w_notifs w)
                    else w_notifs w)\<rparr>"

definition issue_fetch :: "policy \<Rightarrow> gw_error option \<Rightarrow> world \<Rightarrow> world" where
  "issue_fetch rls fail w =
     w\<lparr>w_fetches := w_fetches w @ [fetchNotes_query rls (w_sess w) fail (w_store w)]\<rparr>"

definition navigate :: "string option \<Rightarrow> world \<Rightarrow> world" where
  "navigate r w = (case r of None \<Rightarrow> w | Some path \<Rightarrow> w\<lparr>w_route := path\<rparr>)"

text \<open>The page is interactive: mounted and past the session check.\<close>

definition interactive :: "world \<Rightarrow> bool" where
  "interactive w \<longleftrightarrow> w_mounted w \<and> \<not> dash_loading (w_dash w)"

text \<open>The ids of the rows the list displays (not while the hook is loading).\<close>

definition shown_ids :: "world \<Rightarrow> nid set" where
  "shown_ids w =
     (if isLoading (w_hook w) then {}
      else note_id ` set (filteredNotes (searchQuery (w_list w)) (selectedTag (w_list w))
                                       (hook_notes (w_hook w))))"

text \<open>The calls an editor handler made, in order.\<close>

fun apply_calls :: "gw_error option \<Rightarrow> editor_call list \<Rightarrow> world \<Rightarrow> world" where
  "apply_calls fail [] w = w"
| "apply_calls fail (Call_update i q # cs) w =
     (let (st', ts) = updateNote (w_sess w) i q fail (w_store w)
      in apply_calls fail cs ((set_store st' w)\<lparr>w_toasts := w_toasts w @ ts\<rparr>))"
| "apply_calls fail (Call_summarize c # cs) w = apply_calls fail cs (w\<lparr>w_summ := Suc (w_summ w)\<rparr>)"
| "apply_calls fail (Call_toast t # cs) w = apply_calls fail cs (w\<lparr>w_toasts := w_toasts w @ [t]\<rparr>)"

section \<open>Event handlers\<close>

text \<open>Mount: \<open>useNotes\<close>'s effect fetches and subscribes; the dashboard's effect
  registers the auth listener and asks for the session.\<close>

definition ev_mount :: "policy \<Rightarrow> gw_error option \<Rightarrow> world \<Rightarrow> world" where
  "ev_mount rls fail w =
     (if w_mounted w then w
      else (issue_fetch rls fail w)\<lparr>w_subscribed := True, w_session_pending := True, w_mounted := True\<rparr>)"

definition ev_session :: "world \<Rightarrow> world" where
  "ev_session w =
     (if w_session_pending w \<and> w_mounted w then
        (let (d', r) = on_session (w_sess w) (w_dash w)
         in navigate r (w\<lparr>w_dash := d', w_session_pending := False\<rparr>))
      else w)"

definition ev_auth :: "uid option \<Rightarrow> world \<Rightarrow> world" where
  "ev_auth s w =
     (if w_mounted w then
        (let (d', r) = on_auth_change s (w_dash w) in navigate r (w\<lparr>w_sess := s, w_dash := d'\<rparr>))
      else w\<lparr>w_sess := s\<rparr>)"

definition ev_notify :: "policy \<Rightarrow> gw_error option \<Rightarrow> world \<Rightarrow> world" where
  "ev_notify rls fail w =
     (if w_subscribed w \<and> 0 < w_notifs w
      then issue_fetch rls fail (w\<lparr>w_notifs := w_notifs w - 1\<rparr>) else w)"

definition ev_fetch_settle :: "nat \<Rightarrow> world \<Rightarrow> world" where
  "ev_fetch_settle i w =
     (if i < length (w_fetches w) then
        (let (h', ts) = fetchNotes_settle (w_fetches w ! i) (w_hook w)
         in w\<lparr>w_hook := h', w_fetches := remove_nth i (w_fetches w), w_toasts := w_toasts w @ ts\<rparr>)
      else w)"

definition ev_op_settle :: "nat \<Rightarrow> world \<Rightarrow> world" where
  "ev_op_settle i w =
     (if i < length (w_ops w) then
        (let w' = w\<lparr>w_ops := remove_nth i (w_ops w)\<rparr> in
         case w_ops w ! i of
           Op_create r ts \<Rightarrow> w'\<lparr>w_dash := handleCreateNote_done r (w_dash w), w_toasts := w_toasts w @ ts\<rparr>
         | Op_delete j c ts \<Rightarrow> w'\<lparr>w_dash := handleDeleteNote_done j c (w_dash w), w_toasts := w_toasts w @ ts\<rparr>)
      else w)"

definition ev_new :: "gw_error option \<Rightarrow> world \<Rightarrow> world" where
  "ev_new fail w =
     (if interactive w then
        (let (r, st', ts) = createNote (w_sess w) fail (w_store w)
         in (set_store st' w)\<lparr>w_ops := w_ops w @ [Op_create r ts]\<rparr>)
      else w)"

definition ev_select :: "nid \<Rightarrow> world \<Rightarrow> world" where
  "ev_select i w =
     (if interactive w \<and> i \<in> shown_ids w then w\<lparr>w_dash := selectNote i (w_dash w)\<rparr> else w)"

definition ev_delete :: "nid \<Rightarrow> gw_error option \<Rightarrow> world \<Rightarrow> world" where
  "ev_delete i fail w =
     (if interactive w \<and> i \<in> shown_ids w then
        (let (st', ts) = deleteNote (w_sess w) i fail (w_store w)
         in (set_store st' w)\<lparr>w_ops := w_ops w @ [Op_delete i (selectedNoteId (w_dash w)) ts]\<rparr>)
      else w)"

definition ev_search :: "string \<Rightarrow> world \<Rightarrow> world" where
  "ev_search q w = (if interactive w then w\<lparr>w_list := (w_list w)\<lparr>searchQuery := q\<rparr>\<rparr> else w)"

text \<open>The tag badges, "All" included, are shown only when some note has a tag.\<close>

definition ev_pick_tag :: "string option \<Rightarrow> world \<Rightarrow> world" where
  "ev_pick_tag t w =
     (let ts = allTags (hook_notes (w_hook w)) in
      if interactive w \<and> ts \<noteq> [] \<and> (case t of None \<Rightarrow> True | Some x \<Rightarrow> x \<in> set ts)
      then w\<lparr>w_list := (w_list w)\<lparr>selectedTag := t\<rparr>\<rparr> else w)"

definition ev_edit :: "editor_event \<Rightarrow> gw_error option \<Rightarrow> world \<Rightarrow> world" where
  "ev_edit ev fail w =
     (if interactive w \<and> \<not> is_response ev then
        (let (e', cs) = editor_step (selectedNote (w_hook w) (w_dash w)) (w_editor w) ev
         in apply_calls fail cs (w\<lparr>w_editor := e'\<rparr>))
      else w)"

definition ev_summary :: "string option gw \<Rightarrow> world \<Rightarrow> world" where
  "ev_summary r w =
     (if 0 < w_summ w then
        (let (e', ts) = summarize_settle r (w_editor w)
         in apply_calls None ts (w\<lparr>w_editor := e', w_summ := w_summ w - 1\<rparr>))
      else w)"

definition ev_remote_update :: "uid \<Rightarrow> nid \<Rightarrow> note_patch \<Rightarrow> world \<Rightarrow> world" where
  "ev_remote_update u i q w = set_store (store_update (Some u) i q (w_store w)) w"

text \<open>\<open>handleSignOut\<close>: the auth listener fires for the sign-out, then the handler
  navigates home.\<close>

definition ev_sign_out :: "world \<Rightarrow> world" where
  "ev_sign_out w =
     (if interactive w then navigate (Some ''/'') (ev_auth None w) else w)"

definition ev_unmount :: "world \<Rightarrow> world" where
  "ev_unmount w = w\<lparr>w_subscribed := False, w_mounted := False\<rparr>"

text \<open>After each event the page re-renders and the editor's effect runs on the note
  the dashboard selects (the editor exists once the page is past its spinner).\<close>

definition rerender :: "world \<Rightarrow> world" where
  "rerender w =
     (if interactive w then w\<lparr>w_editor := editor_sync (selectedNote (w_hook w) (w_dash w)) (w_editor w)\<rparr>
      else w)"

fun sys_step :: "policy \<Rightarrow> world \<Rightarrow> sys_event \<Rightarrow> world" where
  "sys_step rls w (Mount f) = rerender (ev_mount rls f w)"
| "sys_step rls w Session_resolved = rerender (ev_session w)"
| "sys_step rls w (Auth_changed s) = rerender (ev_auth s w)"
| "sys_step rls w (Notify f) = rerender (ev_notify rls f w)"
| "sys_step rls w (Fetch_settle i) = rerender (ev_fetch_settle i w)"
| "sys_step rls w (Op_settle i) = rerender (ev_op_settle i w)"
| "sys_step rls w (Click_new f) = rerender (ev_new f w)"
| "sys_step rls w (Click_select i) = rerender (ev_select i w)"
| "sys_step rls w (Click_delete i f) = rerender (ev_delete i f w)"
| "sys_step rls w (Search q) = rerender (ev_search q w)"
| "sys_step rls w (Pick_tag t) = rerender (ev_pick_tag t w)"
| "sys_step rls w (Edit ev f) = rerender (ev_edit ev f w)"
| "sys_step rls w (Summary_arrives r) = rerender (ev_summary r w)"
| "sys_step rls w (Remote_update u i q) = rerender (ev_remote_update u i q w)"
| "sys_step rls w Click_sign_out = rerender (ev_sign_out w)"
| "sys_step rls w Unmount = ev_unmount w"

fun sys_run :: "policy \<Rightarrow> world \<Rightarrow> sys_event list \<Rightarrow> world" where
  "sys_run rls w [] = w"
| "sys_run rls w (ev # evs) = sys_run rls (sys_step rls w ev) evs"

section \<open>The system invariant\<close>

text \<open>What every reachable world keeps: the table is well formed, at most one
  summarize request is in flight, and the editor's Summarizing flag is set exactly while
  one is.\<close>

definition sys_inv :: "world \<Rightarrow> bool" where
  "sys_inv w \<longleftrightarrow> store_wf (w_store w) \<and> w_summ w \<le> 1 \<and> (isSummarizing (w_editor w) \<longleftrightarrow> w_summ w = 1)"

lemma sys_inv_frame:
  "w_store w' = w_store w \<Longrightarrow> w_editor w' = w_editor w \<Longrightarrow> w_summ w' = w_summ w \<Longrightarrow>
   sys_inv w' = sys_inv w"
  by (simp add: sys_inv_def)

lemma set_store_sel [simp]:
  "w_store (set_store st w) = st" "w_editor (set_store st w) = w_editor w"
  "w_summ (set_store st w) = w_summ w" "w_fetches (set_store st w) = w_fetches w"
  "w_hook (set_store st w) = w_hook w" "w_dash (set_store st w) = w_dash w"
  by (simp_all add: set_store_def)

lemma apply_calls_sel:
  "w_editor (apply_calls f cs w) = w_editor w \<and>
   w_summ (apply_calls f cs w) = w_summ w + count_summarize cs \<and>
   (store_wf (w_store w) \<longrightarrow> store_wf (w_store (apply_calls f cs w)))"
proof (induction f cs w rule: apply_calls.induct)
  case (2 fail i q cs w)
  obtain st' ts where u: "updateNote (w_sess w) i q fail (w_store w) = (st', ts)" by fastforce
  have wf: "store_wf (w_store w) \<longrightarrow> store_wf st'"
    using store_wf_mutations(2) [of "w_store w" "w_sess w" i q fail] u by simp
  from "2.IH" [OF refl u [symmetric]] wf u show ?case by simp
qed simp_all

lemma rerender_inv [simp]: "sys_inv (rerender w) = sys_inv w"
  by (simp add: rerender_def sys_inv_def)

lemma ev_edit_inv:
  assumes "sys_inv w"
  shows "sys_inv (ev_edit ev f w)"
proof (cases "interactive w \<and> \<not> is_response ev")
  case True
  obtain e' cs where ec: "editor_step (selectedNote (w_hook w) (w_dash w)) (w_editor w) ev = (e', cs)"
    by fastforce
  have k: "w_summ w \<le> 1" "isSummarizing (w_editor w) \<longleftrightarrow> w_summ w = 1"
    using assms by (simp_all add: sys_inv_def)
  have "ev_edit ev f w = apply_calls f cs (w\<lparr>w_editor := e'\<rparr>)"
    using True ec by (simp add: ev_edit_def)
  then show ?thesis
    using editor_step_summ [OF _ k ec] True apply_calls_sel [of f cs "w\<lparr>w_editor := e'\<rparr>"] assms
    by (simp add: sys_inv_def)
next
  case False
  then have "ev_edit ev f w = w" by (auto simp: ev_edit_def)
  then show ?thesis using assms by simp
qed

lemma ev_summary_inv:
  assumes "sys_inv w"
  shows "sys_inv (ev_summary r w)"
proof (cases "0 < w_summ w")
  case True
  obtain e' ts where ec: "summarize_settle r (w_editor w) = (e', ts)" by fastforce
  have "\<not> isSummarizing e'" "count_summarize ts = 0"
    using summarize_settle_clears [of r "w_editor w"] count_summarize_settle [of r "w_editor w"] ec
    by simp_all
  moreover have "ev_summary r w = apply_calls None ts (w\<lparr>w_editor := e', w_summ := w_summ w - 1\<rparr>)"
    using True ec by (simp add: ev_summary_def)
  ultimately show ?thesis
    using assms True apply_calls_sel [of None ts "w\<lparr>w_editor := e', w_summ := w_summ w - 1\<rparr>"]
    by (simp add: sys_inv_def)
next
  case False
  then show ?thesis using assms by (simp add: ev_summary_def)
qed

lemma ev_store_inv:
  assumes "sys_inv w"
  shows "sys_inv (ev_new f w)" and "sys_inv (ev_delete i f w)"
    and "sys_inv (ev_remote_update u i q w)"
proof -
  have wf: "store_wf (w_store w)" using assms by (simp add: sys_inv_def)
  show "sys_inv (ev_new f w)"
    using assms store_wf_mutations(1) [OF wf, of "w_sess w" f]
    by (auto simp: ev_new_def sys_inv_def split: prod.splits)
  show "sys_inv (ev_delete i f w)"
    using assms store_wf_mutations(3) [OF wf, of "w_sess w" i f]
    by (auto simp: ev_delete_def sys_inv_def split: prod.splits)
  show "sys_inv (ev_remote_update u i q w)"
    using assms store_wf_update [OF wf] by (simp add: ev_remote_update_def sys_inv_def)
qed

lemma ev_other_inv:
  assumes "sys_inv w"
  shows "sys_inv (ev_mount rls f w)" "sys_inv (ev_session w)" "sys_inv (ev_auth s w)"
    "sys_inv (ev_notify rls f w)" "sys_inv (ev_fetch_settle i w)" "sys_inv (ev_op_settle i w)"
    "sys_inv (ev_select i w)" "sys_inv (ev_search q w)" "sys_inv (ev_pick_tag t w)"
    "sys_inv (ev_sign_out w)" "sys_inv (ev_unmount w)"
  using assms
  by (simp_all add: sys_inv_def ev_mount_def issue_fetch_def ev_session_def ev_auth_def
      navigate_def ev_notify_def ev_fetch_settle_def ev_op_settle_def ev_select_def
      ev_search_def ev_pick_tag_def ev_sign_out_def ev_unmount_def Let_def
      split: prod.splits option.splits pending_op.splits)

lemma sys_step_inv:
  assumes "sys_inv w"
  shows "sys_inv (sys_step rls w ev)"
  using assms ev_other_inv ev_store_inv ev_edit_inv ev_summary_inv by (cases ev) simp_all

lemma sys_run_inv: "sys_inv w \<Longrightarrow> sys_inv (sys_run rls w evs)"
  by (induction evs arbitrary: w) (simp_all add: sys_step_inv)

section \<open>Fetch delivery\<close>

lemma rerender_sel [simp]:
  "w_hook (rerender w) = w_hook w" "w_fetches (rerender w) = w_fetches w"
  "w_store (rerender w) = w_store w" "w_sess (rerender w) = w_sess w"
  "w_dash (rerender w) = w_dash w" "w_notifs (rerender w) = w_notifs w"
  "w_subscribed (rerender w) = w_subscribed w" "w_ops (rerender w) = w_ops w"
  by (simp_all add: rerender_def)

lemma fetch_settle_front:
  assumes "w_fetches w = r # rs"
  shows "w_hook (sys_step rls w (Fetch_settle 0)) = fst (fetchNotes_settle r (w_hook w)) \<and>
         w_fetches (sys_step rls w (Fetch_settle 0)) = rs"
  using assms by (simp add: ev_fetch_settle_def remove_nth_def case_prod_beta)

text \<open>Delivering the responses in the order they were issued leaves the list of the
  last one, when that one succeeded.\<close>

lemma drain_fifo:
  assumes "w_fetches w = rs @ [Inr d]"
  shows "hook_notes (w_hook (sys_run rls w (replicate (Suc (length rs)) (Fetch_settle 0)))) = d"
  using assms
proof (induction rs arbitrary: w)
  case Nil
  then show ?case using fetch_settle_front [of w "Inr d" "[]" rls] by simp
next
  case (Cons r rs)
  have "w_fetches (sys_step rls w (Fetch_settle 0)) = rs @ [Inr d]"
    using fetch_settle_front [of w r "rs @ [Inr d]" rls] Cons.prems by simp
  from Cons.IH [OF this] show ?case by simp
qed

lemma notify_issues_fetch:
  assumes "w_subscribed w" and "0 < w_notifs w"
  shows "w_fetches (sys_step rls w (Notify None)) = w_fetches w @ [Inr (select_notes rls (w_sess w) (w_store w))]"
  using assms by (simp add: ev_notify_def issue_fetch_def fetchNotes_query_def)

end
