(* ===== verification/PublicNotes.thy ===== *)
theory PublicNotes
  imports NotesList
begin

text \<open>
  The public notes page of \<open>src/pages/PublicNotes.tsx\<close>: its state (the fetched public
  rows, the search text, the loading flag), the fetch split at its await, its own copy
  of the search filter, what the grid and each card show, and the page's events. The
  page is read-only: no event of it
  writes the table. A failed fetch is only logged to the console.
\<close>

record public_state =
  pub_notes :: "Note list"
  pub_query :: string
  pub_loading :: bool

definition publicNotes_init :: public_state where
  "publicNotes_init = \<lparr>pub_notes = [], pub_query = [], pub_loading = True\<rparr>"

definition fetchPublicNotes_query :: "policy \<Rightarrow> uid option \<Rightarrow> gw_error option \<Rightarrow> store \<Rightarrow> Note list gw" where
  "fetchPublicNotes_query rls sess fail st = gw_call fail (select_public rls sess st)"

definition fetchPublicNotes_settle :: "Note list gw \<Rightarrow> public_state \<Rightarrow> public_state" where
  "fetchPublicNotes_settle r s =
     (case r of
        Inl e \<Rightarrow> s\<lparr>pub_loading := False\<rparr>
      | Inr data \<Rightarrow> s\<lparr>pub_notes := data, pub_loading := False\<rparr>)"

definition public_matches :: "string \<Rightarrow> Note \<Rightarrow> bool" where
  "public_matches q n \<longleftrightarrow>
     js_includes (js_toLowerCase (title n)) (js_toLowerCase q) \<or>
     js_includes (js_toLowerCase (content n)) (js_toLowerCase q)"

definition public_filtered :: "string \<Rightarrow> Note list \<Rightarrow> Note list" where
  "public_filtered q ns = filter (public_matches q) ns"

definition public_view :: "public_state \<Rightarrow> list_view" where
  "public_view s =
     (let fs = public_filtered (pub_query s) (pub_notes s) in
      if pub_loading s then Loading_view
      else if fs = [] then
        Placeholder (if js_truthy (pub_query s) then ''No notes found'' else ''No public notes yet'')
      else Note_rows fs)"

text \<open>One card of the grid: the title (or "Untitled Note"), the view count, the
  creation date (its formatting left out), the content preview (or "Empty note") and
  the first three tags as badges.\<close>

record public_card =
  pc_id :: nid
  pc_title :: string
  pc_views :: nat
  pc_date :: timestamp
  pc_preview :: string
  pc_tags :: "string list"

definition public_card_of :: "Note \<Rightarrow> public_card" where
  "public_card_of n =
     \<lparr>pc_id = note_id n, pc_title = js_or (title n) ''Untitled Note'', pc_views = view_count n,
      pc_date = created_at n, pc_preview = js_or (content n) ''Empty note'',
      pc_tags = tag_badges (tags n)\<rparr>"

definition public_cards :: "list_view \<Rightarrow> public_card list" where
  "public_cards v = (case v of Note_rows fs \<Rightarrow> map public_card_of fs | _ \<Rightarrow> [])"

text \<open>The page's events: the mount effect's fetch coming back (its query runs against
  the table as it is then), typing in the search box, and the Home button.\<close>

datatype public_event = Pub_fetched "gw_error option" | Pub_search string | Pub_home

fun public_step :: "policy \<Rightarrow> uid option \<Rightarrow> store \<Rightarrow> public_state \<Rightarrow> public_event \<Rightarrow>
                    public_state \<times> string option" where
  "public_step rls sess st s (Pub_fetched fail) =
     (fetchPublicNotes_settle (fetchPublicNotes_query rls sess fail st) s, None)"
| "public_step rls sess st s (Pub_search q) = (s\<lparr>pub_query := q\<rparr>, None)"
| "public_step rls sess st s Pub_home = (s, Some ''/'')"

section \<open>Properties\<close>

text \<open>C28: the public page's search is the dashboard list's filter with no tag
  selected: the two copies of the code agree on every query and list.\<close>

theorem public_filter_equiv:
  "public_filtered q ns = filteredNotes q None ns"
  unfolding public_filtered_def filteredNotes_def
  by (rule filter_cong) (simp_all add: public_matches_def matchesSearch_def)

text \<open>C29: after a successful fetch the page holds exactly the public rows the read
  policy admits (as a multiset: each such row once, nothing else), newest first by
  creation time; a failed fetch keeps the previous rows, clears the loading flag and
  raises no toast.\<close>

theorem fetchPublicNotes_outcome:
  "mset (pub_notes (fetchPublicNotes_settle (fetchPublicNotes_query rls sess None st) s)) =
     mset (filter (\<lambda>n. is_public n \<and> rls sess n) (rows st)) \<and>
   sorted_wrt (\<lambda>a b. created_at b \<le> created_at a)
     (pub_notes (fetchPublicNotes_settle (fetchPublicNotes_query rls sess None st) s)) \<and>
   fetchPublicNotes_settle (fetchPublicNotes_query rls sess (Some e) st) s = s\<lparr>pub_loading := False\<rparr>"
proof -
  have "filter is_public (filter (rls sess) (rows st)) = filter (\<lambda>n. is_public n \<and> rls sess n) (rows st)"
    unfolding filter_filter by (rule filter_cong) auto
  then show ?thesis
    by (simp add: fetchPublicNotes_settle_def fetchPublicNotes_query_def select_public_def
                  sorted_order_desc)
qed

end
