(* ===== verification/Profile.thy ===== *)
theory Profile
  imports Prelude
begin

text \<open>
  The profile page of \<open>src/pages/Profile.tsx\<close>. The \<open>profiles\<close> table is external
  (spec section 3: one row per user, created outside this code) and is a map from user
  id to row. The page's state is a record; \<open>fetchProfile\<close> awaits twice (the auth
  user, then the row) and is split there; \<open>handleSaveProfile\<close> is split at its await
  into the request and the continuation. The avatar initials are computed on every
  render with \<open>split\<close>, indexing and \<open>toUpperCase\<close>; reading \<open>[0]\<close> of an empty
  string yields \<open>undefined\<close>, which \<open>join\<close> prints as nothing, and calling
  \<open>toUpperCase\<close> on it throws a \<open>TypeError\<close>, the render's error value here
  (\<open>profile_view\<close>).
\<close>

record profile_row =
  profile_id :: uid
  full_name :: "string option"

type_synonym profiles = "uid \<Rightarrow> profile_row option"

record auth_user =
  au_id :: uid
  au_email :: "string option"

record profile_state =
  pr_user :: "auth_user option"
  pr_profile :: "profile_row option"
  fullName :: string
  pr_loading :: bool
  isSaving :: bool

datatype render_error = TypeError

definition profile_init :: profile_state where
  "profile_init = \<lparr>pr_user = None, pr_profile = None, fullName = [], pr_loading = True, isSaving = False\<rparr>"

section \<open>fetchProfile\<close>

text \<open>After \<open>auth.getUser()\<close>: no user navigates to \<open>/auth\<close> and returns (the page
  stays on its loading line); otherwise the user is stored and the row is requested.\<close>

definition fetchProfile_user :: "auth_user option \<Rightarrow> profile_state \<Rightarrow> profile_state \<times> string option" where
  "fetchProfile_user u s =
     (case u of None \<Rightarrow> (s, Some ''/auth'') | Some usr \<Rightarrow> (s\<lparr>pr_user := Some usr\<rparr>, None))"

text \<open>\<open>from("profiles").select("*").eq("id", user.id).single()\<close>: the row, or no data
  when the call fails or finds no row (the error is not read).\<close>

definition profile_query :: "profiles \<Rightarrow> uid \<Rightarrow> gw_error option \<Rightarrow> profile_row option" where
  "profile_query tbl u fail = (case fail of None \<Rightarrow> tbl u | Some _ \<Rightarrow> None)"

definition fetchProfile_settle :: "profile_row option \<Rightarrow> profile_state \<Rightarrow> profile_state" where
  "fetchProfile_settle r s =
     (case r of
        None \<Rightarrow> s\<lparr>pr_loading := False\<rparr>
      | Some row \<Rightarrow> s\<lparr>pr_profile := Some row, fullName := upd_opt (full_name row) [],
                      pr_loading := False\<rparr>)"

section \<open>handleSaveProfile\<close>

text \<open>Up to the await: without a user nothing happens; otherwise \<open>isSaving\<close> is set
  and the update \<open>{ full_name: fullName }\<close> is sent for the user's row.\<close>

definition handleSaveProfile_start :: "profile_state \<Rightarrow> profile_state \<times> (uid \<times> string) option" where
  "handleSaveProfile_start s =
     (case pr_user s of
        None \<Rightarrow> (s, None)
      | Some u \<Rightarrow> (s\<lparr>isSaving := True\<rparr>, Some (au_id u, fullName s)))"

definition profiles_update :: "uid \<Rightarrow> string \<Rightarrow> gw_error option \<Rightarrow> profiles \<Rightarrow> profiles" where
  "profiles_update u n fail tbl =
     (case fail of
        Some _ \<Rightarrow> tbl
      | None \<Rightarrow> (case tbl u of None \<Rightarrow> tbl | Some row \<Rightarrow> tbl(u \<mapsto> row\<lparr>full_name := Some n\<rparr>)))"

definition handleSaveProfile_settle :: "gw_error option \<Rightarrow> profile_state \<Rightarrow> profile_state \<times> toast list" where
  "handleSaveProfile_settle fail s =
     (s\<lparr>isSaving := False\<rparr>,
      case fail of
        None \<Rightarrow> [ok_toast ''Profile updated'' ''Your profile has been saved successfully'']
      | Some e \<Rightarrow> [err_toast ''Error saving profile'' e])"

section \<open>Render\<close>

text \<open>\<open>fullName ? fullName.split(" ").map(n => n[0]).join("").toUpperCase()
  : user?.email?.[0].toUpperCase() || "U"\<close>.\<close>

definition initials :: "string \<Rightarrow> auth_user option \<Rightarrow> render_error + string" where
  "initials n u =
     (if js_truthy n then Inr (js_toUpperCase (js_join [] (map (take 1) (js_split n (CHR '' '')))))
      else (case u of
              None \<Rightarrow> Inr ''U''
            | Some usr \<Rightarrow>
                (case au_email usr of
                   None \<Rightarrow> Inr ''U''
                 | Some [] \<Rightarrow> Inl TypeError
                 | Some (c # _) \<Rightarrow> Inr (js_toUpperCase [c]))))"

text \<open>The Save button: \<open>disabled={isSaving}\<close>.\<close>

definition save_enabled :: "profile_state \<Rightarrow> bool" where
  "save_enabled s \<longleftrightarrow> \<not> isSaving s"

text \<open>What the page renders: the loading line, or the card with the avatar's
  initials, the e-mail field (\<open>user?.email || ""\<close>), the name field, and the Save
  button's label and disabled state. Computing the initials may throw, and then the
  render throws.\<close>

record profile_form =
  pf_initials :: string
  pf_email :: string
  pf_name :: string
  pf_button :: string
  pf_disabled :: bool

datatype profile_screen = Profile_loading | Profile_card profile_form

definition profile_view :: "profile_state \<Rightarrow> render_error + profile_screen" where
  "profile_view s =
     (if pr_loading s then Inr Profile_loading
      else (case initials (fullName s) (pr_user s) of
              Inl e \<Rightarrow> Inl e
            | Inr ini \<Rightarrow> Inr (Profile_card
                \<lparr>pf_initials = ini,
                 pf_email = (case pr_user s of None \<Rightarrow> [] | Some u \<Rightarrow> upd_opt (au_email u) []),
                 pf_name = fullName s,
                 pf_button = (if isSaving s then ''Saving...'' else ''Save Profile''),
                 pf_disabled = \<not> save_enabled s\<rparr>)))"

section \<open>The page as a state machine\<close>

text \<open>The page, the \<open>profiles\<close> table, the row query in flight (issued once the
  user is known), the save requests in flight in issue order, the toasts raised and the
  route navigated to. The events are the environment's answers and the user's input;
  the table is written when a save request is answered.\<close>

record profile_world =
  pw_page :: profile_state
  pw_table :: profiles
  pw_fetch :: "uid option"
  pw_saves :: "(uid \<times> string) list"
  pw_toasts :: "toast list"
  pw_location :: "string option"

datatype profile_event =
    P_user "auth_user option"
  | P_row "gw_error option"
  | P_edit string
  | P_save
  | P_save_done "gw_error option"
  | P_back

definition profile_world_init :: "profiles \<Rightarrow> profile_world" where
  "profile_world_init tbl =
     \<lparr>pw_page = profile_init, pw_table = tbl, pw_fetch = None, pw_saves = [], pw_toasts = [],
      pw_location = None\<rparr>"

text \<open>The form exists only once loading is over; \<open>onChange\<close> sets \<open>fullName\<close> and
  the Save button's click runs \<open>handleSaveProfile\<close> unless it is disabled.\<close>

fun profile_step :: "profile_world \<Rightarrow> profile_event \<Rightarrow> profile_world" where
  "profile_step w (P_user u) =
     (let (s, nav) = fetchProfile_user u (pw_page w)
      in w\<lparr>pw_page := s, pw_location := (case nav of None \<Rightarrow> pw_location w | Some r \<Rightarrow> Some r),
           pw_fetch := (case u of None \<Rightarrow> pw_fetch w | Some usr \<Rightarrow> Some (au_id usr))\<rparr>)"
| "profile_step w (P_row fail) =
     (case pw_fetch w of
        None \<Rightarrow> w
      | Some u \<Rightarrow> w\<lparr>pw_page := fetchProfile_settle (profile_query (pw_table w) u fail) (pw_page w),
                    pw_fetch := None\<rparr>)"
| "profile_step w (P_edit v) =
     (if pr_loading (pw_page w) then w else w\<lparr>pw_page := (pw_page w)\<lparr>fullName := v\<rparr>\<rparr>)"
| "profile_step w P_save =
     (if pr_loading (pw_page w) \<or> \<not> save_enabled (pw_page w) then w
      else (let (s, req) = handleSaveProfile_start (pw_page w)
            in w\<lparr>pw_page := s, pw_saves := pw_saves w @ (case req of None \<Rightarrow> [] | Some r \<Rightarrow> [r])\<rparr>))"
| "profile_step w (P_save_done fail) =
     (case pw_saves w of
        [] \<Rightarrow> w
      | (u, n) # rest \<Rightarrow>
          (let (s, ts) = handleSaveProfile_settle fail (pw_page w)
           in w\<lparr>pw_page := s, pw_table := profiles_update u n fail (pw_table w), pw_saves := rest,
                pw_toasts := pw_toasts w @ ts\<rparr>))"
| "profile_step w P_back =
     (if pr_loading (pw_page w) then w else w\<lparr>pw_location := Some ''/dashboard''\<rparr>)"

definition profile_run :: "profile_world \<Rightarrow> profile_event list \<Rightarrow> profile_world" where
  "profile_run w evs = foldl profile_step w evs"

text \<open>At most one save is in flight, and exactly while the button shows "Saving...".\<close>

definition profile_inv :: "profile_world \<Rightarrow> bool" where
  "profile_inv w \<longleftrightarrow> length (pw_saves w) \<le> 1 \<and> (isSaving (pw_page w) \<longleftrightarrow> pw_saves w \<noteq> [])"

section \<open>Lemmas\<close>

lemma js_split_split_on: "js_split s d = split_on d s"
  using js_split_loop_eq [of 0 0 s d] by (cases "split_on d s") (simp_all add: js_split_def Let_def)

lemma length_concat_take1: "length (concat (map (take 1) ws)) \<le> length ws"
  by (induction ws) auto

lemma length_initials_name: "length (js_toUpperCase (js_join [] (map (take 1) ws))) \<le> length ws"
  using length_concat_take1 [of ws] by (simp add: js_join_Nil_sep)

lemma split_on_replicate: "split_on d (replicate k d) = replicate (Suc k) []"
  by (induction k) (simp_all add: Let_def)

lemma profile_step_inv: "profile_inv w \<Longrightarrow> profile_inv (profile_step w e)"
  by (cases e)
     (auto simp: profile_inv_def fetchProfile_user_def fetchProfile_settle_def save_enabled_def
                 handleSaveProfile_start_def handleSaveProfile_settle_def Let_def
           split: option.splits list.splits prod.splits)

lemma profile_run_inv: "profile_inv w \<Longrightarrow> profile_inv (profile_run w evs)"
  unfolding profile_run_def by (induction evs arbitrary: w) (simp_all add: profile_step_inv)

lemma profile_inv_init: "profile_inv (profile_world_init tbl)"
  by (simp add: profile_inv_def profile_world_init_def profile_init_def)

lemma profile_save_cycle:
  assumes "profile_inv w" "pr_user (pw_page w) = Some usr" "\<not> pr_loading (pw_page w)"
          "\<not> isSaving (pw_page w)"
  shows "profile_run w [P_save, P_save_done f] =
           w\<lparr>pw_page := (pw_page w)\<lparr>isSaving := False\<rparr>,
             pw_table := profiles_update (au_id usr) (fullName (pw_page w)) f (pw_table w),
             pw_toasts := pw_toasts w @ snd (handleSaveProfile_settle f (pw_page w))\<rparr>"
  using assms
  by (simp add: profile_run_def profile_inv_def save_enabled_def handleSaveProfile_start_def
                handleSaveProfile_settle_def)

section \<open>Properties\<close>

text \<open>C32: for a full name and e-mail in ASCII, the avatar initials have at most one
  letter per space-separated piece of the name (one when the name is empty).\<close>

theorem initials_length_bound:
  assumes "js_ascii n" and "js_ascii (case u of None \<Rightarrow> [] | Some usr \<Rightarrow> upd_opt (au_email usr) [])"
    and "initials n u = Inr w"
  shows "length w \<le> Suc (count_list n (CHR '' ''))"
proof (cases "js_truthy n")
  case True
  with assms(3) have "w = js_toUpperCase (js_join [] (map (take 1) (split_on CHR '' '' n)))"
    by (simp add: initials_def js_split_split_on)
  then show ?thesis using length_initials_name [of "split_on CHR '' '' n"] by (simp add: length_split_on)
next
  case False
  with assms(3) show ?thesis
    by (auto simp: initials_def split: option.splits list.splits)
qed

theorem initials_length_bound_witness:
  "initials ''Ada Lovelace'' None = Inr ''AL'' \<and> length ''AL'' \<le> Suc (count_list ''Ada Lovelace'' (CHR '' ''))"
proof -
  have a: "js_ascii ''Ada Lovelace''" by code_simp
  have e: "js_ascii (case (None :: auth_user option) of None \<Rightarrow> [] | Some usr \<Rightarrow> upd_opt (au_email usr) [])"
    by (simp add: js_ascii_def)
  have i: "initials ''Ada Lovelace'' None = Inr ''AL''" by code_simp
  show ?thesis using initials_length_bound [OF a e i] i by simp
qed

text \<open>C33: A name of spaces only renders an empty avatar, and an empty e-mail address with an empty name makes the initials, and so the whole render of the loaded page, throw a TypeError.\<close>

theorem initials_degenerate:
  "initials (replicate (Suc k) CHR '' '') u = Inr [] \<and>
   initials [] (Some \<lparr>au_id = i, au_email = Some []\<rparr>) = Inl TypeError \<and>
   profile_view (s\<lparr>pr_loading := False, fullName := [],
                   pr_user := Some \<lparr>au_id = i, au_email = Some []\<rparr>\<rparr>) = Inl TypeError"
  by (simp add: profile_view_def initials_def js_split_split_on split_on_replicate js_join_Nil_sep
           del: replicate_Suc)

text \<open>C31: On the profile page at most one save request is in flight, exactly while the button shows Saving.\<close>

theorem profile_save_at_most_one: "profile_inv (profile_run (profile_world_init tbl) evs)"
  using profile_inv_init by (rule profile_run_inv)

text \<open>C30: A save writes the typed name into the user's profile row and raises the success toast; a failed save leaves the table unchanged and raises the error toast; either way the button is enabled again.\<close>

theorem save_profile_outcome:
  assumes "profile_inv w" "pr_user (pw_page w) = Some usr" "\<not> pr_loading (pw_page w)"
          "\<not> isSaving (pw_page w)"
  shows "pw_table (profile_run w [P_save, P_save_done None]) =
           (pw_table w)(au_id usr := map_option (\<lambda>r. r\<lparr>full_name := Some (fullName (pw_page w))\<rparr>)
                                        (pw_table w (au_id usr))) \<and>
         pw_toasts (profile_run w [P_save, P_save_done None]) =
           pw_toasts w @ [ok_toast ''Profile updated'' ''Your profile has been saved successfully''] \<and>
         pw_table (profile_run w [P_save, P_save_done (Some e)]) = pw_table w \<and>
         pw_toasts (profile_run w [P_save, P_save_done (Some e)]) =
           pw_toasts w @ [err_toast ''Error saving profile'' e] \<and>
         \<not> isSaving (pw_page (profile_run w [P_save, P_save_done f]))"
  using profile_save_cycle [OF assms, of None] profile_save_cycle [OF assms, of "Some e"]
        profile_save_cycle [OF assms, of f]
  by (auto simp: profiles_update_def handleSaveProfile_settle_def split: option.splits)

theorem save_profile_outcome_witness:
  "pw_toasts (profile_run (profile_run (profile_world_init [1 \<mapsto> \<lparr>profile_id = 1, full_name = None\<rparr>])
      [P_user (Some \<lparr>au_id = 1, au_email = Some ''ada@x.org''\<rparr>), P_row None]) [P_save, P_save_done None]) =
     [ok_toast ''Profile updated'' ''Your profile has been saved successfully'']"
proof -
  let ?w = "profile_run (profile_world_init [1 \<mapsto> \<lparr>profile_id = 1, full_name = None\<rparr>])
              [P_user (Some \<lparr>au_id = 1, au_email = Some ''ada@x.org''\<rparr>), P_row None]"
  have inv: "profile_inv ?w" using profile_inv_init by (rule profile_run_inv)
  have "pr_user (pw_page ?w) = Some \<lparr>au_id = 1, au_email = Some ''ada@x.org''\<rparr>" "\<not> pr_loading (pw_page ?w)" "\<not> isSaving (pw_page ?w)"
       "pw_toasts ?w = []"
    by (simp_all add: profile_run_def profile_world_init_def profile_init_def fetchProfile_user_def
                      fetchProfile_settle_def profile_query_def)
  with save_profile_outcome [OF inv, of "\<lparr>au_id = 1, au_email = Some ''ada@x.org''\<rparr>"] show ?thesis by simp
qed

end
