(* ===== verification/Header.thy ===== *)
theory Header
  imports Prelude
begin

text \<open>
  The dashboard header of \<open>src/components/dashboard/DashboardHeader.tsx\<close> and the
  buttons of \<open>src/pages/Landing.tsx\<close>. Both components hold no state of their own: a
  click either navigates, forwards to the \<open>onSignOut\<close> prop, or (the header's theme
  button) calls \<open>setTheme\<close> of \<open>next-themes\<close>. The theme store is external; it enters
  the model as the value \<open>useTheme()\<close> returns, \<open>None\<close> while it is undefined
  (before the provider has resolved it). What the page looks like is the theme, or the
  operating system's preference when the theme is \<open>"system"\<close>.
\<close>

datatype header_button = Public_notes_btn | Profile_btn | Theme_btn | Sign_out_btn

datatype theme_icon = Sun | Moon

text \<open>What one click does: the route passed to \<open>navigate\<close>, the value passed to
  \<open>setTheme\<close>, and whether \<open>onSignOut\<close> is called.\<close>

record header_effect =
  he_navigate :: "string option"
  he_set_theme :: "string option"
  he_sign_out :: bool

definition no_effect :: header_effect where
  "no_effect = \<lparr>he_navigate = None, he_set_theme = None, he_sign_out = False\<rparr>"

definition theme_toggle :: "string option \<Rightarrow> string" where
  "theme_toggle t = (if t = Some ''dark'' then ''light'' else ''dark'')"

definition theme_icon_of :: "string option \<Rightarrow> theme_icon" where
  "theme_icon_of t = (if t = Some ''dark'' then Sun else Moon)"

primrec header_click :: "string option \<Rightarrow> header_button \<Rightarrow> header_effect" where
  "header_click t Public_notes_btn = no_effect\<lparr>he_navigate := Some ''/public-notes''\<rparr>"
| "header_click t Profile_btn = no_effect\<lparr>he_navigate := Some ''/profile''\<rparr>"
| "header_click t Theme_btn = no_effect\<lparr>he_set_theme := Some (theme_toggle t)\<rparr>"
| "header_click t Sign_out_btn = no_effect\<lparr>he_sign_out := True\<rparr>"

text \<open>The theme store: \<open>setTheme\<close> replaces the theme; the page is dark when the theme
  is \<open>"dark"\<close>, or \<open>"system"\<close> on a dark operating system.\<close>

definition apply_header_effect :: "header_effect \<Rightarrow> string option \<Rightarrow> string option" where
  "apply_header_effect e t = (case he_set_theme e of None \<Rightarrow> t | Some v \<Rightarrow> Some v)"

definition renders_dark :: "string option \<Rightarrow> bool \<Rightarrow> bool" where
  "renders_dark t os_dark \<longleftrightarrow> t = Some ''dark'' \<or> (t = Some ''system'' \<and> os_dark)"

section \<open>Landing\<close>

datatype landing_button = Sign_in_btn | Get_started_btn | Start_free_btn | Learn_more_btn

primrec landing_click :: "landing_button \<Rightarrow> string" where
  "landing_click Sign_in_btn = ''/auth''"
| "landing_click Get_started_btn = ''/auth''"
| "landing_click Start_free_btn = ''/auth''"
| "landing_click Learn_more_btn = ''/auth''"

end
