(* ===== verification/Spec2Isabelle.thy ===== *)
theory Spec2Isabelle
  imports System PublicNotes Profile Header
begin

text \<open>
  \<^bold>\<open>A verification development for the note-taking client of this repository.\<close>
  The program is a React client (\<open>src/src\<close>) of a hosted backend: a \<open>notes\<close> and a
  \<open>profiles\<close> table, authentication, a change-notification channel and a summarize
  function, all of which it only calls. The model is a shallow embedding: each React
  component's state is a record, each handler a HOL function returning the next state
  and the calls it makes (remote requests, toasts, navigation), each \<open>async\<close> handler
  split at its \<open>await\<close> into a request and a continuation, and a remote failure a value
  (\<open>gw_error + 'a\<close>, or the \<open>gw_error option\<close> an event carries). Everything is
  executable; the concrete scenarios below are evaluated by \<open>simp\<close> and \<open>code_simp\<close>.

  \<^bold>\<open>Theories.\<close>
  \<^item> \<open>Prelude\<close>: model types, the JS primitives the code calls (\<open>toLowerCase\<close>,
    \<open>toUpperCase\<close>, \<open>includes\<close>, \<open>trim\<close>, \<open>split\<close>, \<open>join\<close>, truthiness,
    \<open>Array.from(new Set(..))\<close>), toasts and gateway errors. \<open>js_split_loop\<close> is the
    ECMAScript scan loop of \<open>split\<close>, a \<^theory_text>\<open>function\<close> with the measure
    \<open>length s - q\<close>; \<open>split_on\<close> is its structural reference.
  \<^item> \<open>Store\<close>: the \<open>Note\<close> row of \<open>hooks/useNotes.ts\<close>, the table and the queries of
    \<open>useNotes.ts\<close> and \<open>PublicNotes.tsx\<close> (\<open>select_notes\<close>, \<open>select_public\<close>,
    \<open>store_insert\<close>, \<open>store_update\<close>, \<open>store_delete\<close>). How the hosted store answers
    (row-level security as a \<open>policy\<close> parameter, ids, timestamps) is from the spec.
  \<^item> \<open>UseNotes\<close>: \<open>useNotes\<close> (\<open>fetchNotes\<close>, \<open>createNote\<close>, \<open>updateNote\<close>,
    \<open>deleteNote\<close>) over the hook's state, and the object it returns as an interface:
    a datatype of its operations with \<open>useNotes_call\<close> running one.
  \<^item> \<open>NotesList\<close>, \<open>NoteEditor\<close>, \<open>Dashboard\<close>: the components of
    \<open>components/dashboard\<close> and \<open>pages/Dashboard.tsx\<close>: filter, tag index, list
    view, each row's contents and the clicks on a row (DOM bubbling and the delete
    button's \<open>stopPropagation\<close>); the editor's draft, seeding effect, every handler,
    the Summarize guard and what it renders (\<open>editor_step\<close>, \<open>editor_view\<close>, with
    the summarize service in \<open>ed_sys_step\<close>); selection, auth callbacks and the
    create/delete continuations.
  \<^item> \<open>System\<close>: the dashboard composed as one step function \<open>sys_step\<close> on a
    \<open>world\<close> (table, session, every component state, fetch responses and continuations
    in flight, pending notifications); the environment's choices (which response
    arrives next, failures, writes from other devices) are in the \<open>sys_event\<close>.
    \<open>FloatingActionButton.tsx\<close> is the \<open>Click_new\<close> event, the header's sign out
    \<open>Click_sign_out\<close>.
  \<^item> \<open>PublicNotes\<close>: \<open>pages/PublicNotes.tsx\<close>: fetch, its own search filter, view,
    cards and the page's events (\<open>public_step\<close>).
  \<^item> \<open>Profile\<close>: \<open>pages/Profile.tsx\<close>: \<open>fetchProfile\<close> (split at both awaits),
    \<open>handleSaveProfile\<close>, the avatar \<open>initials\<close>, the rendered card
    (\<open>profile_view\<close>, which throws when the initials do), and the page with its
    \<open>profiles\<close> table as the step function \<open>profile_step\<close>.
  \<^item> \<open>Header\<close>: the buttons of \<open>DashboardHeader.tsx\<close> (theme through the external
    next-themes store) and of \<open>pages/Landing.tsx\<close>.

  \<^bold>\<open>What is shown.\<close> Per component: the functional behaviour of each handler on
  every branch, errors included; invariants kept by every sequence of events
  (duplicate-free tags, at most one summarize or profile save in flight, exactly while
  the button shows it); refinement of the tag index by a set; equivalence of the two
  copies of the search filter; the exact rows of the public fetch; a bound on the
  avatar initials for ASCII names and on a row's tag badges; that deleting from a row
  never also selects it; and the render error of the initials. Facts about the model
  of the JS builtins (\<open>split\<close> against \<open>split_on\<close>, \<open>join\<close>) and about the
  modelled server (the table's well-formedness) are lemmas the properties use, not
  properties of the program.
  Across components (this theory): the world invariant holds after any sequence of
  events; oldest-first delivery of fetches makes the list converge to the table, while
  out-of-order delivery can leave it stale with nothing pending; the delete
  continuation's selection behaviour; what the first load of an empty account and a
  create show, for every user, policy and table; and a
  tag filter that, once its tag has left every note, hides every note with no control
  left to clear it (list, editor and hook together).

  \<^bold>\<open>Bounds.\<close> There is no fuel: every loop of the code is a list traversal
  (structural recursion) or \<open>split\<close>'s scan, whose termination is proved. Natural
  numbers stand for ids, timestamps and counters, which JavaScript keeps as doubles far
  below \<open>2^53\<close>; no property depends on a width.

  \<^bold>\<open>Not modelled.\<close> Authentication, the realtime transport and the summarize
  function are external (spec section 1): their results are inputs of the events.
  The \<open>profiles\<close> and \<open>notes\<close> tables' server behaviour and next-themes' store are
  modelled from the spec and their documentation; so is the DOM's propagation of a
  click (\<open>bubble\<close>). Markup, styling, date formatting (\<open>date-fns\<close>), the static
  text of \<open>Landing.tsx\<close> and the \<open>components/ui\<close> library (not in this
  repository) carry no behaviour. Strings are \<open>char\<close> lists with ASCII casing and
  trimming: JavaScript's UTF-16 strings and Unicode case mapping (under which a German
  sharp s upper-cases to two letters) agree with the model only on ASCII text, which is why the initials bound assumes it
  (\<open>js_ascii\<close>). A remount after \<open>Unmount\<close> keeps the component states, where
  React would start a new instance with fresh state; the properties concern one
  instance. Imports and the local \<open>Note\<close> interfaces of
  \<open>NotesList.tsx\<close> and \<open>NoteEditor.tsx\<close> (narrower views of the same row) are
  not separate definitions.
\<close>

section \<open>Properties of the composed dashboard\<close>

text \<open>C1: in every world reachable from a well-formed table, by any sequence of events
  (user actions, responses in any order, failures, notifications, writes from other
  devices), the table stays well formed and the editor's Summarizing flag is set exactly
  while the one possible summarize request is in flight.\<close>

theorem system_invariant:
  assumes "store_wf st"
  shows "sys_inv (sys_run rls (world_init st s) evs)"
proof -
  have "sys_inv (world_init st s)"
    using assms by (simp add: sys_inv_def world_init_def editor_init_def)
  then show ?thesis by (rule sys_run_inv)
qed

theorem system_invariant_witness:
  "sys_inv (sys_run owner_only (world_init store_empty (Some 1))
     [Mount None, Session_resolved, Click_new None, Edit Ed_click_summarize None])"
proof -
  have "store_wf store_empty" by (simp add: store_wf_def store_empty_def)
  then show ?thesis by (rule system_invariant)
qed

text \<open>C2: eventual consistency when responses come back in order: once a change
  notification is pending and no further change happens, delivering it and then every
  fetch in flight oldest first leaves the list equal to what the table holds for the
  session.\<close>

theorem fifo_delivery_converges:
  assumes "w_subscribed w" and "0 < w_notifs w"
  shows "hook_notes (w_hook (sys_run rls w (Notify None # replicate (Suc (length (w_fetches w))) (Fetch_settle 0))))
           = select_notes rls (w_sess w) (w_store w)"
proof -
  let ?w' = "sys_step rls w (Notify None)"
  have f: "w_fetches ?w' = w_fetches w @ [Inr (select_notes rls (w_sess w) (w_store w))]"
    using assms by (rule notify_issues_fetch)
  have "w_store ?w' = w_store w" "w_sess ?w' = w_sess w"
    using assms by (simp_all add: ev_notify_def issue_fetch_def)
  with drain_fifo [OF f, of rls] show ?thesis by simp
qed

theorem fifo_delivery_converges_witness:
  "hook_notes (w_hook (sys_run owner_only
      (sys_run owner_only (world_init store_empty (Some 1)) [Mount None, Session_resolved, Click_new None])
      [Notify None, Fetch_settle 0, Fetch_settle 0]))
   = [new_note_row 0 1 0 ''Untitled Note'' [] []]"
proof -
  let ?w = "sys_run owner_only (world_init store_empty (Some 1)) [Mount None, Session_resolved, Click_new None]"
  have h: "w_subscribed ?w" "0 < w_notifs ?w" by code_simp+
  have l: "length (w_fetches ?w) = 1" by code_simp
  have s: "select_notes owner_only (w_sess ?w) (w_store ?w) = [new_note_row 0 1 0 ''Untitled Note'' [] []]"
    by code_simp
  from fifo_delivery_converges [OF h, of owner_only] l s show ?thesis
    by (simp add: numeral_2_eq_2)
qed

text \<open>C3: the re-fetch race: with overlapping fetches delivered out of order, the list
  can end older than the table with nothing left in flight and no notification pending,
  so nothing will ever correct it.\<close>

theorem stale_fetch_persists:
  "let w = sys_run owner_only (world_init store_empty (Some 1))
             [Mount None, Session_resolved, Click_new None, Notify None, Fetch_settle 1, Fetch_settle 0]
   in w_fetches w = [] \<and> w_notifs w = 0 \<and> hook_notes (w_hook w) = [] \<and>
      select_notes owner_only (Some 1) (w_store w) = [new_note_row 0 1 0 ''Untitled Note'' [] []]"
  by code_simp

text \<open>C4: when a delete's continuation runs, the selection is cleared exactly if the
  deleted id was selected in the render where delete was clicked: whether the delete
  failed plays no part, and neither does what is selected now.\<close>

theorem delete_settle_selection:
  assumes "i < length (w_ops w)" and "w_ops w ! i = Op_delete j c ts"
  shows "selectedNoteId (w_dash (sys_step rls w (Op_settle i))) =
           (if c = Some j then None else selectedNoteId (w_dash w))"
  using assms by (simp add: ev_op_settle_def Let_def)

theorem delete_settle_selection_witness:
  "let w = sys_run owner_only (world_init store_empty (Some 1))
             [Mount None, Session_resolved, Fetch_settle 0, Click_new None, Op_settle 0,
              Notify None, Fetch_settle 0, Click_delete 0 (Some (Gw_error ''offline''))]
   in selectedNoteId (w_dash (sys_step owner_only w (Op_settle 0))) = None \<and>
      new_note_row 0 1 0 ''Untitled Note'' [] [] \<in> set (rows (w_store w))"
proof -
  let ?w = "sys_run owner_only (world_init store_empty (Some 1))
             [Mount None, Session_resolved, Fetch_settle 0, Click_new None, Op_settle 0,
              Notify None, Fetch_settle 0, Click_delete 0 (Some (Gw_error ''offline''))]"
  have h: "0 < length (w_ops ?w)" "w_ops ?w ! 0 = Op_delete 0 (Some 0) [err_toast ''Error deleting note'' (Gw_error ''offline'')]"
    by code_simp+
  have r: "new_note_row 0 1 0 ''Untitled Note'' [] [] \<in> set (rows (w_store ?w))" by code_simp
  from delete_settle_selection [OF h, of owner_only] r show ?thesis by (simp add: Let_def)
qed

text \<open>C5: the stale selection of the delete continuation: the user deletes note 0 while
  it is selected and selects note 1 before the delete returns; the continuation clears the
  selection, so note 1 is deselected and the editor shows no note.\<close>

theorem delete_deselects_other_note:
  "let w = sys_run owner_only (world_init store_empty (Some 1))
             [Mount None, Session_resolved, Fetch_settle 0, Click_new None, Op_settle 0,
              Click_new None, Op_settle 0, Notify None, Notify None, Fetch_settle 0, Fetch_settle 0,
              Click_select 0, Click_delete 0 None, Click_select 1]
   in selectedNoteId (w_dash w) = Some 1 \<and>
      selectedNoteId (w_dash (sys_step owner_only w (Op_settle 0))) = None \<and>
      selectedNote (w_hook w) (w_dash (sys_step owner_only w (Op_settle 0))) = None"
  by code_simp

text \<open>C6: the empty dashboard: for every signed-in user, read policy and table in
  which the policy shows the user no row, once the page mounts, the session resolves and
  the first fetch returns, the page is interactive on the dashboard route, the list shows
  the "No notes yet" placeholder and the editor has no note.\<close>

theorem empty_dashboard_placeholder:
  assumes "select_notes rls (Some u) st = []"
  shows "let w = sys_run rls (world_init st (Some u)) [Mount None, Session_resolved, Fetch_settle 0]
   in notesList_view (isLoading (w_hook w)) (w_list w) (hook_notes (w_hook w))
        = Placeholder ''No notes yet. Create your first note!'' \<and>
      selectedNote (w_hook w) (w_dash w) = None \<and> interactive w \<and> w_route w = ''/dashboard''"
  using assms
  by (simp add: Let_def world_init_def ev_mount_def issue_fetch_def ev_session_def on_session_def
                navigate_def ev_fetch_settle_def fetchNotes_query_def remove_nth_def rerender_def
                interactive_def notesList_view_def filteredNotes_def selectedNote_def useNotes_init_def
                dashboard_init_def notesList_init_def)

theorem empty_dashboard_placeholder_witness:
  "let w = sys_run owner_only (world_init store_empty (Some 1)) [Mount None, Session_resolved, Fetch_settle 0]
   in notesList_view (isLoading (w_hook w)) (w_list w) (hook_notes (w_hook w))
        = Placeholder ''No notes yet. Create your first note!''"
proof -
  have "select_notes owner_only (Some 1) store_empty = []"
    by (simp add: select_notes_def store_empty_def order_desc_def)
  from empty_dashboard_placeholder [OF this] show ?thesis by (simp add: Let_def)
qed

text \<open>C8: creating from the floating button, in any interactive world with a signed-in
  user: the insert adds the row "Untitled Note" with empty content and tags under the
  next id, and once the create continuation runs that row is selected and the toast
  "Note created" is raised; no continuation is left behind.\<close>

theorem create_selects_new_note:
  assumes "interactive w" and "w_sess w = Some u"
  shows "let w2 = sys_run rls w [Click_new None, Op_settle (length (w_ops w))]
   in selectedNoteId (w_dash w2) = Some (next_id (w_store w)) \<and>
      new_note_row (next_id (w_store w)) u (clock (w_store w)) ''Untitled Note'' [] [] \<in> set (rows (w_store w2)) \<and>
      w_ops w2 = w_ops w \<and>
      w_toasts w2 = w_toasts w @ [ok_toast ''Note created'' ''Your new note is ready'']"
  using assms
  by (simp add: Let_def ev_new_def createNote_def store_insert_def set_store_def ev_op_settle_def
                remove_nth_def handleCreateNote_done_def rerender_def interactive_def)

theorem create_selects_new_note_witness:
  "let w = sys_run owner_only (world_init store_empty (Some 1)) [Mount None, Session_resolved, Fetch_settle 0]
   in selectedNoteId (w_dash (sys_run owner_only w [Click_new None, Op_settle 0])) = Some 0"
proof -
  define w where "w = sys_run owner_only (world_init store_empty (Some 1)) [Mount None, Session_resolved, Fetch_settle 0]"
  have i: "interactive w" unfolding w_def by code_simp
  have s: "w_sess w = Some 1" unfolding w_def by code_simp
  have o: "length (w_ops w) = 0" unfolding w_def by code_simp
  have n: "next_id (w_store w) = 0" unfolding w_def by code_simp
  from create_selects_new_note [OF i s, of owner_only] o n show ?thesis
    unfolding Let_def w_def [symmetric] by simp
qed

text \<open>C7: a tag filter can be left with no way to clear it: the user selects the tag
  "x" of their only tagged note and then removes that tag in the editor. Once the
  refetch returns, no note has a tag, so the tag bar with its "All" badge is no longer
  rendered and no badge click is possible, yet the selection "x" is kept: the list shows
  "No notes found" with nothing in flight and no notification pending. A note created
  afterwards is hidden as well.\<close>

theorem tag_filter_stuck:
  "let w = sys_run owner_only (world_init store_empty (Some 1))
             [Mount None, Session_resolved, Fetch_settle 0, Click_new None, Op_settle 0,
              Notify None, Fetch_settle 0, Edit (Ed_type_newTag ''x'') None, Edit Ed_add_tag None,
              Notify None, Fetch_settle 0, Pick_tag (Some ''x''), Edit (Ed_remove_tag ''x'') None,
              Notify None, Fetch_settle 0];
       w' = sys_run owner_only w [Click_new None, Op_settle 0, Notify None, Fetch_settle 0]
   in length (hook_notes (w_hook w)) = 1 \<and> w_fetches w = [] \<and> w_notifs w = 0 \<and>
      selectedTag (w_list w) = Some ''x'' \<and>
      notesList_view (isLoading (w_hook w)) (w_list w) (hook_notes (w_hook w)) = Placeholder ''No notes found'' \<and>
      (\<forall>t. ev_pick_tag t w = w) \<and>
      length (hook_notes (w_hook w')) = 2 \<and>
      notesList_view (isLoading (w_hook w')) (w_list w') (hook_notes (w_hook w')) = Placeholder ''No notes found''"
proof -
  define w where "w = sys_run owner_only (world_init store_empty (Some 1))
             [Mount None, Session_resolved, Fetch_settle 0, Click_new None, Op_settle 0,
              Notify None, Fetch_settle 0, Edit (Ed_type_newTag ''x'') None, Edit Ed_add_tag None,
              Notify None, Fetch_settle 0, Pick_tag (Some ''x''), Edit (Ed_remove_tag ''x'') None,
              Notify None, Fetch_settle 0]"
  define w' where "w' = sys_run owner_only w [Click_new None, Op_settle 0, Notify None, Fetch_settle 0]"
  have tags: "allTags (hook_notes (w_hook w)) = []"
    unfolding w_def by code_simp
  then have pick: "\<forall>t. ev_pick_tag t w = w"
    by (simp add: ev_pick_tag_def)
  have now: "length (hook_notes (w_hook w)) = 1 \<and> w_fetches w = [] \<and> w_notifs w = 0 \<and>
      selectedTag (w_list w) = Some ''x'' \<and>
      notesList_view (isLoading (w_hook w)) (w_list w) (hook_notes (w_hook w)) = Placeholder ''No notes found''"
    unfolding w_def by code_simp
  have later: "length (hook_notes (w_hook w')) = 2 \<and>
      notesList_view (isLoading (w_hook w')) (w_list w') (hook_notes (w_hook w')) = Placeholder ''No notes found''"
    unfolding w'_def w_def by code_simp
  from now pick later show ?thesis
    unfolding Let_def w_def [symmetric] w'_def [symmetric] by simp
qed

end
